theory Spec2Isabelle
  imports Main
begin

section \<open>Values, objects and the store\<close>

text \<open>
  The processors of \<^verbatim>\<open>src/parser/processors.js\<close> receive the already
  transformed children of a parse tree node and return an ESTree-like object, a list or
  a bare token. One of them (\<^verbatim>\<open>VariableDeclaration\<close>) writes a field
  into objects it received, so objects live in an explicit store and values refer to
  them by address.

  Strings are lists of code units below 256. A number is kept as the text the host's
  numeric conversion was applied to: \<open>Num s\<close> stands for the IEEE double
  \<^verbatim>\<open>+s\<close>; the conversion itself is the host's and is not interpreted.
\<close>

type_synonym addr = nat

datatype jsval =
    Undefined
  | Null
  | Boolean bool
  | Str string
  | Num string
  | BigInt int
  | Ref addr

text \<open>
  An object is ordinary (an object literal), an array with its elements, or a regular
  expression with the pattern and flags the host reports for it. Each kind carries own
  data properties in insertion order.
\<close>

datatype shape = Ordinary | Elements "jsval list" | Pattern string string

datatype jsobj = JSObject (shape: shape) (props: "(string \<times> jsval) list")

type_synonym heap = "jsobj list"

text \<open>
  Errors. \<open>TypeError\<close> and \<open>SyntaxError\<close> are thrown by the JavaScript
  runtime; the source throws nothing of its own. The last three are the names of the
  specification's error taxonomy (section 7); no processor constructs them.
\<close>

datatype error =
    TypeError
  | SyntaxError
  | UnsupportedNodeKind string
  | InvalidLiteral string
  | MalformedSequence

type_synonym outcome = "(error + jsval) \<times> heap"

type_synonym builder = "jsval list \<Rightarrow> heap \<Rightarrow> outcome"

text \<open>What \<^verbatim>\<open>eval(raw)\<close> produces for a literal token: a value, or a
  newly created regular expression.\<close>

datatype evaluated = Value jsval | NewRegExp string string

text \<open>
  The parts of the JavaScript runtime that the processors call and that are not
  modelled here: \<^verbatim>\<open>eval\<close> on a piece of text, and the conversion to a
  string of a value that is neither a string, \<^verbatim>\<open>undefined\<close>,
  \<^verbatim>\<open>null\<close> nor a boolean.
\<close>

record host =
  eval :: "string \<Rightarrow> error + evaluated"
  to_text :: "heap \<Rightarrow> jsval \<Rightarrow> string"

definition alloc :: "jsobj \<Rightarrow> heap \<Rightarrow> outcome" where
  "alloc obj h = (Inr (Ref (length h)), h @ [obj])"

definition object :: "(string \<times> jsval) list \<Rightarrow> jsobj" where
  "object ps = JSObject Ordinary ps"

definition array :: "jsval list \<Rightarrow> jsobj" where
  "array es = JSObject (Elements es) []"

text \<open>The \<open>n\<close>-th argument of a call; a missing argument is
  \<^verbatim>\<open>undefined\<close>.\<close>

definition arg :: "nat \<Rightarrow> jsval list \<Rightarrow> jsval" where
  "arg n args = (if n < length args then args ! n else Undefined)"

text \<open>\<^verbatim>\<open>defs.shift()\<close>: the first element and the remaining list;
  \<^verbatim>\<open>undefined\<close> on an empty list.\<close>

definition shift :: "jsval list \<Rightarrow> jsval \<times> jsval list" where
  "shift xs = (case xs of [] \<Rightarrow> (Undefined, []) | x # rest \<Rightarrow> (x, rest))"

text \<open>
  Reading a property. \<^verbatim>\<open>undefined\<close> and \<^verbatim>\<open>null\<close> have no
  properties (a TypeError); an own data property is read from the object; a regular
  expression inherits \<^verbatim>\<open>source\<close> and \<^verbatim>\<open>flags\<close>; every
  other read gives \<^verbatim>\<open>undefined\<close>. The processors read only
  \<^verbatim>\<open>id\<close>, \<^verbatim>\<open>source\<close> and \<^verbatim>\<open>flags\<close>,
  which no primitive value has.
\<close>

definition inherited :: "shape \<Rightarrow> string \<Rightarrow> jsval" where
  "inherited s name =
     (case s of
        Pattern p f \<Rightarrow>
          (if name = ''source'' then Str p else if name = ''flags'' then Str f
           else Undefined)
      | _ \<Rightarrow> Undefined)"

definition get_prop :: "heap \<Rightarrow> jsval \<Rightarrow> string \<Rightarrow> error + jsval" where
  "get_prop h v name =
     (case v of
        Undefined \<Rightarrow> Inl TypeError
      | Null \<Rightarrow> Inl TypeError
      | Ref a \<Rightarrow>
          (if a < length h then
             (case map_of (props (h ! a)) name of
                Some x \<Rightarrow> Inr x
              | None \<Rightarrow> Inr (inherited (shape (h ! a)) name))
           else Inr Undefined)
      | _ \<Rightarrow> Inr Undefined)"

text \<open>
  Writing a property (the file is a CommonJS module without \<^verbatim>\<open>'use strict'\<close>):
  a TypeError on \<^verbatim>\<open>undefined\<close> and \<^verbatim>\<open>null\<close>, silently
  without effect on any other primitive value, and on an object the property is
  overwritten in place or appended.
\<close>

fun put :: "string \<Rightarrow> jsval \<Rightarrow> (string \<times> jsval) list \<Rightarrow> (string \<times> jsval) list" where
  "put name x [] = [(name, x)]"
| "put name x ((k, v) # ps) = (if k = name then (k, x) # ps else (k, v) # put name x ps)"

definition set_prop :: "jsval \<Rightarrow> string \<Rightarrow> jsval \<Rightarrow> heap \<Rightarrow> error + heap" where
  "set_prop v name x h =
     (case v of
        Undefined \<Rightarrow> Inl TypeError
      | Null \<Rightarrow> Inl TypeError
      | Ref a \<Rightarrow>
          (if a < length h
           then Inr (h[a := JSObject (shape (h ! a)) (put name x (props (h ! a)))])
           else Inr h)
      | _ \<Rightarrow> Inr h)"

text \<open>\<^verbatim>\<open>declarations.push(decl)\<close> on the array at address \<open>arr\<close>.\<close>

definition push :: "addr \<Rightarrow> jsval \<Rightarrow> heap \<Rightarrow> heap" where
  "push arr x h =
     (if arr < length h then
        (case shape (h ! arr) of
           Elements es \<Rightarrow> h[arr := JSObject (Elements (es @ [x])) (props (h ! arr))]
         | _ \<Rightarrow> h)
      else h)"

section \<open>Strings and the regular expressions of the source\<close>

definition to_string :: "host \<Rightarrow> heap \<Rightarrow> jsval \<Rightarrow> string" where
  "to_string H h v =
     (case v of
        Str s \<Rightarrow> s
      | Undefined \<Rightarrow> ''undefined''
      | Null \<Rightarrow> ''null''
      | Boolean b \<Rightarrow> (if b then ''true'' else ''false'')
      | _ \<Rightarrow> to_text H h v)"

definition starts_with :: "string \<Rightarrow> string \<Rightarrow> bool" where
  "starts_with pat s = (take (length pat) s = pat)"

fun contains :: "string \<Rightarrow> string \<Rightarrow> bool" where
  "contains pat [] = (pat = [])"
| "contains pat (c # cs) = (starts_with pat (c # cs) \<or> contains pat cs)"

text \<open>\<^verbatim>\<open>/&&|\|\||\?\?/.test(s)\<close>\<close>
definition is_logical_op :: "string \<Rightarrow> bool" where
  "is_logical_op s = (contains ''&&'' s \<or> contains ''||'' s \<or> contains ''??'' s)"

text \<open>\<^verbatim>\<open>/--|\+\+/.test(s)\<close>\<close>
definition is_update_op :: "string \<Rightarrow> bool" where
  "is_update_op s = (contains ''--'' s \<or> contains ''++'' s)"

text \<open>\<^verbatim>\<open>/n$/.test(s)\<close>\<close>
definition ends_in_n :: "string \<Rightarrow> bool" where
  "ends_in_n s = (s \<noteq> [] \<and> last s = CHR ''n'')"

text \<open>\<^verbatim>\<open>/^(true|false|null)$/.test(s)\<close>\<close>
definition is_keyword_literal :: "string \<Rightarrow> bool" where
  "is_keyword_literal s = (s = ''true'' \<or> s = ''false'' \<or> s = ''null'')"

text \<open>\<^verbatim>\<open>JSON.parse\<close> on the three texts the test above lets through.\<close>
definition json_parse :: "string \<Rightarrow> jsval" where
  "json_parse s = (if s = ''true'' then Boolean True else if s = ''false'' then Boolean False else Null)"

section \<open>Numeric conversions\<close>

text \<open>
  \<^verbatim>\<open>BigInt(text)\<close>: the text is trimmed of white space; the empty text is
  zero; otherwise it is a decimal integer with an optional sign, or an unsigned
  hexadecimal, octal or binary integer with its prefix; anything else is a SyntaxError
  (\<open>None\<close> here).
\<close>

definition is_space :: "char \<Rightarrow> bool" where
  "is_space c = (of_char c \<in> set [9, 10, 11, 12, 13, 32, 160 :: nat])"

definition trim :: "string \<Rightarrow> string" where
  "trim s = rev (dropWhile is_space (rev (dropWhile is_space s)))"

definition digit_val :: "char \<Rightarrow> nat option" where
  "digit_val c =
     (let n = (of_char c :: nat) in
      if 48 \<le> n \<and> n \<le> 57 then Some (n - 48)
      else if 97 \<le> n \<and> n \<le> 102 then Some (n - 87)
      else if 65 \<le> n \<and> n \<le> 70 then Some (n - 55)
      else None)"

fun parse_digits :: "nat \<Rightarrow> nat \<Rightarrow> string \<Rightarrow> nat option" where
  "parse_digits radix acc [] = Some acc"
| "parse_digits radix acc (c # cs) =
     (case digit_val c of
        Some d \<Rightarrow> if d < radix then parse_digits radix (acc * radix + d) cs else None
      | None \<Rightarrow> None)"

definition parse_nat :: "nat \<Rightarrow> string \<Rightarrow> nat option" where
  "parse_nat radix s = (if s = [] then None else parse_digits radix 0 s)"

definition str_to_bigint :: "string \<Rightarrow> int option" where
  "str_to_bigint s =
     (let t = trim s in
      if t = [] then Some 0
      else if starts_with ''0x'' t \<or> starts_with ''0X'' t
        then map_option int (parse_nat 16 (drop 2 t))
      else if starts_with ''0o'' t \<or> starts_with ''0O'' t
        then map_option int (parse_nat 8 (drop 2 t))
      else if starts_with ''0b'' t \<or> starts_with ''0B'' t
        then map_option int (parse_nat 2 (drop 2 t))
      else if starts_with ''+'' t then map_option int (parse_nat 10 (drop 1 t))
      else if starts_with ''-'' t then map_option (\<lambda>n. - int n) (parse_nat 10 (drop 1 t))
      else map_option int (parse_nat 10 t))"

text \<open>
  Unary plus, \<^verbatim>\<open>+raw\<close>: a string is converted by the host (kept as
  \<open>Num\<close> of the text); \<^verbatim>\<open>undefined\<close> is NaN,
  \<^verbatim>\<open>null\<close> and \<^verbatim>\<open>false\<close> are 0, \<^verbatim>\<open>true\<close>
  is 1; a big integer is a TypeError; an object is converted through its text.
\<close>

definition to_number :: "host \<Rightarrow> heap \<Rightarrow> jsval \<Rightarrow> error + jsval" where
  "to_number H h v =
     (case v of
        Str s \<Rightarrow> Inr (Num s)
      | Undefined \<Rightarrow> Inr (Num ''NaN'')
      | Null \<Rightarrow> Inr (Num ''0'')
      | Boolean b \<Rightarrow> Inr (Num (if b then ''1'' else ''0''))
      | Num s \<Rightarrow> Inr (Num s)
      | BigInt i \<Rightarrow> Inl TypeError
      | Ref a \<Rightarrow> Inr (Num (to_text H h v)))"

section \<open>The processors\<close>

text \<open>Allocation of an array and of an object literal. Addresses only give objects
  their identity: the order in which one call allocates its objects is immaterial.\<close>

definition new_array :: "jsval list \<Rightarrow> heap \<Rightarrow> jsval \<times> heap" where
  "new_array es h = (Ref (length h), h @ [array es])"

definition new_object :: "(string \<times> jsval) list \<Rightarrow> heap \<Rightarrow> outcome" where
  "new_object ps h = alloc (object ps) h"

definition ArgList :: builder where
  "ArgList args h =
     (let (r, h1) = new_array (filter (\<lambda>a. a \<noteq> Str '','' \<and> a \<noteq> Str '')'') (tl args)) h
      in (Inr r, h1))"

definition ArrayExpression :: builder where
  "ArrayExpression args h =
     (let (elements, h1) =
            new_array (filter (\<lambda>e. e \<noteq> Str '','' \<and> e \<noteq> Str '']'') (tl args)) h
      in new_object [(''type'', Str ''ArrayExpression''), (''elements'', elements)] h1)"

definition AssignmentExpression :: builder where
  "AssignmentExpression args h =
     new_object [(''type'', Str ''AssignmentExpression''), (''left'', arg 0 args),
                 (''operator'', arg 1 args), (''right'', arg 2 args)] h"

definition BinaryExpression :: "host \<Rightarrow> builder" where
  "BinaryExpression H args h =
     (let left = arg 0 args; op = arg 1 args; right = arg 2 args;
          type = (if is_logical_op (to_string H h op) then ''LogicalExpression''
                  else ''BinaryExpression'')
      in new_object [(''type'', Str type), (''operator'', op), (''left'', left),
                     (''right'', right)] h)"

definition Block :: builder where
  "Block args h =
     (let (body, h1) = new_array (filter (\<lambda>p. p \<noteq> Str ''}'') (tl args)) h
      in new_object [(''type'', Str ''BlockStatement''), (''body'', body)] h1)"

definition BooleanLiteral :: builder where
  "BooleanLiteral args h =
     (let raw = arg 0 args
      in new_object [(''type'', Str ''Literal''), (''value'', Boolean (raw = Str ''true'')),
                     (''raw'', raw)] h)"

definition BreakStatement :: builder where
  "BreakStatement args h =
     (let label = (if arg 1 args = Str '';'' then Null else arg 1 args)
      in new_object [(''type'', Str ''BreakStatement''), (''label'', label)] h)"

definition CallExpression :: builder where
  "CallExpression args h =
     new_object [(''type'', Str ''CallExpression''), (''callee'', arg 0 args),
                 (''arguments'', arg 1 args)] h"

definition ConditionalExpression :: builder where
  "ConditionalExpression args h =
     new_object [(''type'', Str ''ConditionalExpression''), (''test'', arg 0 args),
                 (''consequent'', arg 2 args), (''alternate'', arg 4 args)] h"

definition ContinueStatement :: builder where
  "ContinueStatement args h =
     (let label = (if arg 1 args = Str '';'' then Null else arg 1 args)
      in new_object [(''type'', Str ''ContinueStatement''), (''label'', label)] h)"

definition ExpressionStatement :: builder where
  "ExpressionStatement args h =
     new_object [(''type'', Str ''ExpressionStatement''), (''expression'', arg 0 args)] h"

text \<open>The second parameter is destructured, \<^verbatim>\<open>{ id }\<close>: a TypeError on
  \<^verbatim>\<open>undefined\<close> and \<^verbatim>\<open>null\<close>.\<close>

definition FunctionDeclaration :: builder where
  "FunctionDeclaration args h =
     (case get_prop h (arg 1 args) ''id'' of
        Inl e \<Rightarrow> (Inl e, h)
      | Inr ident \<Rightarrow>
          new_object [(''type'', Str ''FunctionDeclaration''), (''id'', ident),
                      (''params'', arg 2 args), (''body'', arg 3 args),
                      (''async'', Boolean False), (''generator'', Boolean False)] h)"

text \<open>\<^verbatim>\<open>alternate = null\<close> is a default: it replaces a missing or
  \<^verbatim>\<open>undefined\<close> fifth argument.\<close>

definition IfStatement :: builder where
  "IfStatement args h =
     (let alternate = (if arg 4 args = Undefined then Null else arg 4 args)
      in new_object [(''type'', Str ''IfStatement''), (''test'', arg 1 args),
                     (''consequent'', arg 2 args), (''alternate'', alternate)] h)"

definition MemberExpression :: builder where
  "MemberExpression args h =
     (let computed = (arg 1 args = Str ''['')
      in new_object [(''type'', Str ''MemberExpression''), (''object'', arg 0 args),
                     (''property'', arg 2 args), (''computed'', Boolean computed)] h)"

definition Number :: "host \<Rightarrow> builder" where
  "Number H args h =
     (let raw = arg 0 args in
      if ends_in_n (to_string H h raw) then
        (case raw of
           Str r \<Rightarrow>
             (case str_to_bigint (butlast r) of
                Some v \<Rightarrow>
                  new_object [(''type'', Str ''Literal''), (''value'', BigInt v),
                              (''raw'', raw)] h
              | None \<Rightarrow> (Inl SyntaxError, h))
         | _ \<Rightarrow> (Inl TypeError, h))
      else
        (case to_number H h raw of
           Inl e \<Rightarrow> (Inl e, h)
         | Inr v \<Rightarrow>
             new_object [(''type'', Str ''Literal''), (''value'', v), (''raw'', raw)] h))"

definition ObjectExpression :: builder where
  "ObjectExpression args h =
     (let (properties, h1) =
            new_array (filter (\<lambda>p. p \<noteq> Str '','' \<and> p \<noteq> Str ''}'') (tl args)) h
      in new_object [(''type'', Str ''ObjectExpression''), (''properties'', properties)] h1)"

definition ParamList :: builder where
  "ParamList args h =
     (let (r, h1) = new_array (filter (\<lambda>p. p \<noteq> Str '')'') (tl args)) h
      in (Inr r, h1))"

definition ParenthesizedExpression :: builder where
  "ParenthesizedExpression args h = (Inr (arg 1 args), h)"

definition PostfixExpression :: builder where
  "PostfixExpression args h =
     (let type = ''UpdateExpression''
      in new_object [(''type'', Str type), (''prefix'', Boolean False),
                     (''operator'', arg 1 args), (''argument'', arg 0 args)] h)"

definition Property :: builder where
  "Property args h =
     (let kind = ''init''; method = False; shorthand = False in
      if arg 0 args = Str ''['' then
        new_object [(''type'', Str ''Property''), (''key'', arg 1 args),
                    (''value'', arg 4 args), (''computed'', Boolean True),
                    (''kind'', Str kind), (''method'', Boolean method),
                    (''shorthand'', Boolean shorthand)] h
      else
        new_object [(''type'', Str ''Property''), (''key'', arg 0 args),
                    (''value'', arg 2 args), (''computed'', Boolean False),
                    (''kind'', Str kind), (''method'', Boolean method),
                    (''shorthand'', Boolean shorthand)] h)"

definition PropertyName :: builder where
  "PropertyName args h =
     new_object [(''type'', Str ''Identifier''), (''name'', arg 0 args)] h"

definition PropertyNameDefinition :: builder where
  "PropertyNameDefinition args h =
     new_object [(''type'', Str ''Identifier''), (''name'', arg 0 args)] h"

text \<open>\<^verbatim>\<open>eval(x)\<close> returns \<open>x\<close> itself when it is not a string. A
  regular expression that the evaluation creates is a new object of the store.\<close>

definition js_eval :: "host \<Rightarrow> jsval \<Rightarrow> error + evaluated" where
  "js_eval H v = (case v of Str s \<Rightarrow> eval H s | _ \<Rightarrow> Inr (Value v))"

definition materialize :: "evaluated \<Rightarrow> heap \<Rightarrow> jsval \<times> heap" where
  "materialize ev h =
     (case ev of
        Value v \<Rightarrow> (v, h)
      | NewRegExp p f \<Rightarrow> (Ref (length h), h @ [JSObject (Pattern p f) []]))"

definition RegExp :: "host \<Rightarrow> builder" where
  "RegExp H args h =
     (let raw = arg 0 args in
      case js_eval H raw of
        Inl e \<Rightarrow> (Inl e, h)
      | Inr ev \<Rightarrow>
          (let (v, h1) = materialize ev h in
           case get_prop h1 v ''source'' of
             Inl e \<Rightarrow> (Inl e, h1)
           | Inr src \<Rightarrow>
               (case get_prop h1 v ''flags'' of
                  Inl e \<Rightarrow> (Inl e, h1)
                | Inr flags \<Rightarrow>
                    (let h2 = h1 @ [object [(''pattern'', src), (''flags'', flags)]]
                     in new_object [(''type'', Str ''Literal''), (''raw'', raw),
                                    (''value'', v), (''regex'', Ref (length h1))] h2))))"

definition ReturnStatement :: builder where
  "ReturnStatement args h =
     new_object [(''type'', Str ''ReturnStatement''), (''argument'', arg 1 args)] h"

definition Script :: builder where
  "Script args h =
     (let (body, h1) = new_array args h
      in new_object [(''type'', Str ''Program''), (''sourceType'', Str ''script''),
                     (''body'', body)] h1)"

definition SequenceExpression :: builder where
  "SequenceExpression args h =
     (let (expressions, h1) = new_array (filter (\<lambda>p. p \<noteq> Str '','') args) h
      in new_object [(''type'', Str ''SequenceExpression''),
                     (''expressions'', expressions)] h1)"

definition String :: "host \<Rightarrow> builder" where
  "String H args h =
     (let raw = arg 0 args in
      case js_eval H raw of
        Inl e \<Rightarrow> (Inl e, h)
      | Inr ev \<Rightarrow>
          (let (v, h1) = materialize ev h
           in new_object [(''type'', Str ''Literal''), (''value'', v), (''raw'', raw)] h1))"

text \<open>\<^verbatim>\<open>typeof t1 === 'string'\<close>\<close>
definition is_string :: "jsval \<Rightarrow> bool" where
  "is_string v = (case v of Str s \<Rightarrow> True | _ \<Rightarrow> False)"

definition UnaryExpression :: "host \<Rightarrow> builder" where
  "UnaryExpression H args h =
     (let t1 = arg 0 args; t2 = arg 1 args;
          prefix = is_string t1;
          operator = (if prefix then t1 else t2);
          argument = (if prefix then t2 else t1);
          type = (if is_update_op (to_string H h operator) then ''UpdateExpression''
                  else ''UnaryExpression'')
      in new_object [(''type'', Str type), (''prefix'', Boolean prefix),
                     (''operator'', operator), (''argument'', argument)] h)"

text \<open>
  The loop of \<^verbatim>\<open>VariableDeclaration\<close>: each round takes a declarator and
  the token after it from the front of \<open>defs\<close>; after \<^verbatim>\<open>'='\<close> it
  takes the initializer and one more token; it writes \<^verbatim>\<open>init\<close> into the
  declarator, appends the declarator to the array at \<open>arr\<close>, and goes on while
  the last token taken is \<^verbatim>\<open>','\<close>.
\<close>

function fold_declarators :: "addr \<Rightarrow> jsval list \<Rightarrow> heap \<Rightarrow> (error + unit) \<times> heap" where
  "fold_declarators arr defs h =
     (let (decl, defs1) = shift defs;
          (op, defs2) = shift defs1;
          (init, op', defs') =
            (if op = Str ''=''
             then (let (i, defs3) = shift defs2; (o2, defs4) = shift defs3 in (i, o2, defs4))
             else (Null, op, defs2))
      in case set_prop decl ''init'' init h of
           Inl e \<Rightarrow> (Inl e, h)
         | Inr h1 \<Rightarrow>
             (let h2 = push arr decl h1
              in if op' = Str '','' then fold_declarators arr defs' h2 else (Inr (), h2)))"
  by pat_completeness auto
termination
  apply (relation "measure (\<lambda>(arr, defs, h). length defs)")
   apply simp
  apply (auto simp: shift_def split: list.splits if_splits prod.splits)
  done

declare fold_declarators.simps [simp del]

definition VariableDeclaration :: builder where
  "VariableDeclaration args h =
     (let kind = arg 0 args;
          (declarations, h1) = new_array [] h
      in case fold_declarators (length h) (tl args) h1 of
           (Inl e, h2) \<Rightarrow> (Inl e, h2)
         | (Inr u, h2) \<Rightarrow>
             new_object [(''type'', Str ''VariableDeclaration''), (''kind'', kind),
                         (''declarations'', declarations)] h2)"

definition VariableDefinition :: builder where
  "VariableDefinition args h =
     (let h1 = h @ [object [(''type'', Str ''Identifier''), (''name'', arg 0 args)]]
      in new_object [(''type'', Str ''VariableDeclarator''), (''id'', Ref (length h))] h1)"

definition VariableName :: "host \<Rightarrow> builder" where
  "VariableName H args h =
     (let name = arg 0 args in
      if is_keyword_literal (to_string H h name) then
        new_object [(''type'', Str ''Literal''),
                    (''value'', json_parse (to_string H h name))] h
      else if name = Str ''this'' then
        new_object [(''type'', Str ''ThisExpression'')] h
      else
        new_object [(''type'', Str ''Identifier''), (''name'', name)] h)"

definition WhileStatement :: builder where
  "WhileStatement args h =
     new_object [(''type'', Str ''WhileStatement''), (''test'', arg 1 args),
                 (''body'', arg 2 args)] h"

text \<open>\<^verbatim>\<open>(token) => token\<close>, registered for the operator kinds.\<close>

definition token :: builder where
  "token args h = (Inr (arg 0 args), h)"

section \<open>The registry\<close>

text \<open>The names of \<^verbatim>\<open>'ArithOp BitOp CompareOp Equals LogicOp UpdateOp'\<close>,
  split at white space.\<close>

definition operator_kinds :: "string list" where
  "operator_kinds = [''ArithOp'', ''BitOp'', ''CompareOp'', ''Equals'', ''LogicOp'', ''UpdateOp'']"

definition processors :: "host \<Rightarrow> (string \<times> builder) list" where
  "processors H =
     [(''ArgList'', ArgList),
      (''ArrayExpression'', ArrayExpression),
      (''AssignmentExpression'', AssignmentExpression),
      (''BinaryExpression'', BinaryExpression H),
      (''Block'', Block),
      (''BooleanLiteral'', BooleanLiteral),
      (''BreakStatement'', BreakStatement),
      (''CallExpression'', CallExpression),
      (''ConditionalExpression'', ConditionalExpression),
      (''ContinueStatement'', ContinueStatement),
      (''ExpressionStatement'', ExpressionStatement),
      (''FunctionDeclaration'', FunctionDeclaration),
      (''IfStatement'', IfStatement),
      (''MemberExpression'', MemberExpression),
      (''Number'', Number H),
      (''ObjectExpression'', ObjectExpression),
      (''ParamList'', ParamList),
      (''ParenthesizedExpression'', ParenthesizedExpression),
      (''PostfixExpression'', PostfixExpression),
      (''Property'', Property),
      (''PropertyName'', PropertyName),
      (''PropertyNameDefinition'', PropertyNameDefinition),
      (''RegExp'', RegExp H),
      (''ReturnStatement'', ReturnStatement),
      (''Script'', Script),
      (''SequenceExpression'', SequenceExpression),
      (''String'', String H),
      (''UnaryExpression'', UnaryExpression H),
      (''VariableDeclaration'', VariableDeclaration),
      (''VariableDefinition'', VariableDefinition),
      (''VariableName'', VariableName H),
      (''WhileStatement'', WhileStatement)]
     @ map (\<lambda>noterm. (noterm, token)) operator_kinds"

text \<open>
  Modelled from the spec: the tree walker's call \<^verbatim>\<open>build(kind, ...children)\<close>
  (sections 4.1, 6 and 7), which is not among the sources. It looks the kind up in the
  registry and invokes the builder with the children; a kind absent from the registry
  is the error \<^verbatim>\<open>UnsupportedNodeKind\<close>, surfaced to the caller.
\<close>

definition build :: "host \<Rightarrow> string \<Rightarrow> builder" where
  "build H kind children h =
     (case map_of (processors H) kind of
        None \<Rightarrow> (Inl (UnsupportedNodeKind kind), h)
      | Some b \<Rightarrow> b children h)"

section \<open>A sample host and store\<close>

text \<open>
  A host for evaluating the processors on concrete inputs. It evaluates two literal
  tokens, the string \<^verbatim>\<open>"ab"\<close> (\<open>quoted_ab\<close>) and the regular
  expression \<^verbatim>\<open>/a+/g\<close>, and rejects every other text with a SyntaxError,
  as the runtime does for a string literal with an incomplete escape such as
  \<^verbatim>\<open>"\u12"\<close>; it gives an object the text
  \<^verbatim>\<open>[object Object]\<close>.
\<close>

definition quoted_ab :: string where
  "quoted_ab = [CHR 0x22, CHR ''a'', CHR ''b'', CHR 0x22]"

definition sample_host :: host where
  "sample_host =
     \<lparr> eval = (\<lambda>raw.
          if raw = quoted_ab then Inr (Value (Str ''ab''))
          else if raw = ''/a+/g'' then Inr (NewRegExp ''a+'' ''g'')
          else Inl SyntaxError),
       to_text = (\<lambda>h v. ''[object Object]'') \<rparr>"

text \<open>Two declarators as \<^verbatim>\<open>VariableDefinition\<close> returns them, for the
  names \<^verbatim>\<open>a\<close> and \<^verbatim>\<open>b\<close>, at the addresses 1 and 3.\<close>

definition two_declarators :: heap where
  "two_declarators =
     [object [(''type'', Str ''Identifier''), (''name'', Str ''a'')],
      object [(''type'', Str ''VariableDeclarator''), (''id'', Ref 0)],
      object [(''type'', Str ''Identifier''), (''name'', Str ''b'')],
      object [(''type'', Str ''VariableDeclarator''), (''id'', Ref 2)]]"

text \<open>Reading the store: an own property of the object a value refers to, and the
  elements of the array it refers to.\<close>

definition own_prop :: "heap \<Rightarrow> jsval \<Rightarrow> string \<Rightarrow> jsval option" where
  "own_prop h v name =
     (case v of
        Ref a \<Rightarrow> if a < length h then map_of (props (h ! a)) name else None
      | _ \<Rightarrow> None)"

definition elements_of :: "heap \<Rightarrow> jsval \<Rightarrow> jsval list option" where
  "elements_of h v =
     (case v of
        Ref a \<Rightarrow>
          (if a < length h
           then (case shape (h ! a) of Elements es \<Rightarrow> Some es | _ \<Rightarrow> None)
           else None)
      | _ \<Rightarrow> None)"



text \<open>An object with its \<^verbatim>\<open>init\<close> property left out.\<close>

definition without_init :: "jsobj \<Rightarrow> jsobj" where
  "without_init obj = JSObject (shape obj) (filter (\<lambda>p. fst p \<noteq> ''init'') (props obj))"

text \<open>The store \<open>h'\<close> holds every object of \<open>h\<close>, unchanged and at the same
  address, and possibly new ones after them.\<close>

definition extends :: "heap \<Rightarrow> heap \<Rightarrow> bool" where
  "extends h h' = (take (length h) h' = h)"

text \<open>The string token \<^verbatim>\<open>"\u12"\<close>, whose escape is incomplete.\<close>

definition bad_escape :: string where
  "bad_escape = [CHR 0x22, CHR 0x5C, CHR ''u'', CHR ''1'', CHR ''2'', CHR 0x22]"

text \<open>
  The children of a declaration after its keyword, as section 4.5 of the specification
  describes them, for a list of declarators, each with or without an initializer: a
  declarator is followed by \<^verbatim>\<open>'='\<close> and its initializer when it has one,
  and two declarators are separated by \<^verbatim>\<open>','\<close>.
\<close>

fun declarator_sequence :: "(jsval \<times> jsval option) list \<Rightarrow> jsval list" where
  "declarator_sequence [] = []"
| "declarator_sequence [(d, io)] =
     d # (case io of None \<Rightarrow> [] | Some i \<Rightarrow> [Str ''='', i])"
| "declarator_sequence ((d, io) # item # items) =
     d # (case io of None \<Rightarrow> [] | Some i \<Rightarrow> [Str ''='', i])
       @ Str '','' # declarator_sequence (item # items)"

text \<open>One round of the loop of \<^verbatim>\<open>VariableDeclaration\<close> on a declarator that
  is neither \<^verbatim>\<open>undefined\<close> nor \<^verbatim>\<open>null\<close>: the write of
  \<^verbatim>\<open>init\<close> and the push onto the array at \<open>arr\<close>.\<close>

definition declarator_round :: "addr \<Rightarrow> heap \<Rightarrow> jsval \<times> jsval option \<Rightarrow> heap" where
  "declarator_round arr h item =
     (case item of
        (d, io) \<Rightarrow>
          (case set_prop d ''init'' (case io of None \<Rightarrow> Null | Some i \<Rightarrow> i) h of
             Inr h1 \<Rightarrow> push arr d h1
           | Inl e \<Rightarrow> h))"

text \<open>Objects of the store, given by their addresses, as declarators.\<close>

definition as_declarators :: "(addr \<times> jsval option) list \<Rightarrow> (jsval \<times> jsval option) list" where
  "as_declarators ds = map (\<lambda>d. (Ref (fst d), snd d)) ds"

section \<open>Parenthesized expressions\<close>

text \<open>
  C9. For every expression \<open>e\<close> and any surrounding punctuation children, the
  \<^verbatim>\<open>ParenthesizedExpression\<close> builder returns \<open>e\<close> itself, not a wrapper
  node, and allocates nothing: the store is the one it was given. It is the builder
  that the registry holds for the kind \<^verbatim>\<open>ParenthesizedExpression\<close>.
\<close>

theorem ParenthesizedExpression_identity:
  "ParenthesizedExpression [op, e, cp] h = (Inr e, h)
   \<and> map_of (processors H) ''ParenthesizedExpression'' = Some ParenthesizedExpression"
  by (simp add: ParenthesizedExpression_def arg_def processors_def)

section \<open>Kinds without a builder\<close>

lemma registered_kinds:
  "map fst (processors H) =
     [''ArgList'', ''ArrayExpression'', ''AssignmentExpression'', ''BinaryExpression'',
      ''Block'', ''BooleanLiteral'', ''BreakStatement'', ''CallExpression'',
      ''ConditionalExpression'', ''ContinueStatement'', ''ExpressionStatement'',
      ''FunctionDeclaration'', ''IfStatement'', ''MemberExpression'', ''Number'',
      ''ObjectExpression'', ''ParamList'', ''ParenthesizedExpression'',
      ''PostfixExpression'', ''Property'', ''PropertyName'', ''PropertyNameDefinition'',
      ''RegExp'', ''ReturnStatement'', ''Script'', ''SequenceExpression'', ''String'',
      ''UnaryExpression'', ''VariableDeclaration'', ''VariableDefinition'',
      ''VariableName'', ''WhileStatement'', ''ArithOp'', ''BitOp'', ''CompareOp'',
      ''Equals'', ''LogicOp'', ''UpdateOp'']"
  by (simp add: processors_def operator_kinds_def)

text \<open>
  C4. For every kind name that has no registered builder, the registry of the source
  has no entry (the lookup finds nothing), and looking the kind up and invoking it
  through the walker's \<open>build\<close> is the error \<open>UnsupportedNodeKind\<close> returned to
  the caller, with the store untouched: no node is skipped and no undefined result is
  returned.
\<close>

theorem unregistered_kind_is_error:
  assumes "kind \<notin> fst ` set (processors H)"
  shows "map_of (processors H) kind = None
         \<and> build H kind children h = (Inl (UnsupportedNodeKind kind), h)"
proof -
  from assms have "map_of (processors H) kind = None"
    by (simp add: map_of_eq_None_iff)
  then show ?thesis
    by (simp add: build_def)
qed

theorem unregistered_kind_is_error_witness:
  "''Foo'' \<notin> fst ` set (processors sample_host)
   \<and> map_of (processors sample_host) ''Foo'' = None
   \<and> build sample_host ''Foo'' [Str ''x''] [] = (Inl (UnsupportedNodeKind ''Foo''), [])"
proof -
  have k: "''Foo'' \<notin> fst ` set (processors sample_host)"
    by (simp add: processors_def operator_kinds_def)
  from unregistered_kind_is_error [OF k, of "[Str ''x'']" "[]"] k show ?thesis
    by simp
qed

section \<open>Unary and update expressions\<close>

lemma starts_with_iff: "starts_with pat s \<longleftrightarrow> (\<exists>post. s = pat @ post)"
proof
  assume "starts_with pat s"
  then have "s = pat @ drop (length pat) s"
    unfolding starts_with_def by (metis append_take_drop_id)
  then show "\<exists>post. s = pat @ post" ..
next
  assume "\<exists>post. s = pat @ post"
  then show "starts_with pat s"
    by (auto simp: starts_with_def)
qed

lemma contains_iff: "contains pat s \<longleftrightarrow> (\<exists>pre post. s = pre @ pat @ post)"
proof (induction s)
  case Nil
  then show ?case by auto
next
  case (Cons c cs)
  have "(\<exists>pre post. c # cs = pre @ pat @ post)
        \<longleftrightarrow> (\<exists>post. c # cs = pat @ post) \<or> (\<exists>pre post. cs = pre @ pat @ post)"
  proof
    assume "\<exists>pre post. c # cs = pre @ pat @ post"
    then obtain pre post where e: "c # cs = pre @ pat @ post" by blast
    show "(\<exists>post. c # cs = pat @ post) \<or> (\<exists>pre post. cs = pre @ pat @ post)"
    proof (cases pre)
      case Nil
      with e show ?thesis by auto
    next
      case (Cons x xs)
      with e have "cs = xs @ pat @ post" by simp
      then show ?thesis by blast
    qed
  next
    assume "(\<exists>post. c # cs = pat @ post) \<or> (\<exists>pre post. cs = pre @ pat @ post)"
    then show "\<exists>pre post. c # cs = pre @ pat @ post"
    proof
      assume "\<exists>post. c # cs = pat @ post"
      then obtain post where "c # cs = [] @ pat @ post" by auto
      then show ?thesis by blast
    next
      assume "\<exists>pre post. cs = pre @ pat @ post"
      then obtain pre post where "cs = pre @ pat @ post" by blast
      then have "c # cs = (c # pre) @ pat @ post" by simp
      then show ?thesis by blast
    qed
  qed
  with Cons show ?case
    by (simp add: starts_with_iff)
qed

lemma is_update_op_iff:
  "is_update_op s \<longleftrightarrow>
     (\<exists>pre post. s = pre @ ''--'' @ post) \<or> (\<exists>pre post. s = pre @ ''++'' @ post)"
  by (simp only: is_update_op_def contains_iff)

lemma no_update_op:
  "\<not> is_update_op s \<Longrightarrow> \<forall>pre post. s \<noteq> pre @ ''++'' @ post \<and> s \<noteq> pre @ ''--'' @ post"
  unfolding is_update_op_iff by blast

text \<open>
  C7. For an operator token \<open>op\<close>, that is \<^verbatim>\<open>++\<close>, \<^verbatim>\<open>--\<close>
  or a text in which neither of the two occurs (every other operator token is such a
  text), and an operand \<open>x\<close>: with the operator first, \<^verbatim>\<open>UnaryExpression\<close>
  returns a new node with \<^verbatim>\<open>prefix: true\<close>; with the operand first, the
  operand not being a string, a new node with \<^verbatim>\<open>prefix: false\<close>. In both
  cases the node has the type \<^verbatim>\<open>UpdateExpression\<close> when the operator is
  \<^verbatim>\<open>++\<close> or \<^verbatim>\<open>--\<close> and \<^verbatim>\<open>UnaryExpression\<close>
  otherwise, and holds the operator and the operand. \<^verbatim>\<open>PostfixExpression\<close>
  always returns a new \<^verbatim>\<open>UpdateExpression\<close> with
  \<^verbatim>\<open>prefix: false\<close>. The store is the given one with the node added.
\<close>

theorem UnaryExpression_prefix_and_type:
  assumes "op = ''++'' \<or> op = ''--''
           \<or> (\<forall>pre post. op \<noteq> pre @ ''++'' @ post \<and> op \<noteq> pre @ ''--'' @ post)"
  shows "UnaryExpression H [Str op, x] h =
           (Inr (Ref (length h)),
            h @ [JSObject Ordinary
                   [(''type'', Str (if op = ''++'' \<or> op = ''--'' then ''UpdateExpression''
                                    else ''UnaryExpression'')),
                    (''prefix'', Boolean True), (''operator'', Str op),
                    (''argument'', x)]])
         \<and> ((\<forall>s. x \<noteq> Str s) \<longrightarrow>
              UnaryExpression H [x, Str op] h =
                (Inr (Ref (length h)),
                 h @ [JSObject Ordinary
                        [(''type'', Str (if op = ''++'' \<or> op = ''--'' then ''UpdateExpression''
                                         else ''UnaryExpression'')),
                         (''prefix'', Boolean False), (''operator'', Str op),
                         (''argument'', x)]]))
         \<and> PostfixExpression [x, y] h =
              (Inr (Ref (length h)),
               h @ [JSObject Ordinary
                      [(''type'', Str ''UpdateExpression''), (''prefix'', Boolean False),
                       (''operator'', y), (''argument'', x)]])"
proof -
  have "op = ''++'' \<Longrightarrow> op = [] @ ''++'' @ []" "op = ''--'' \<Longrightarrow> op = [] @ ''--'' @ []"
    by simp_all
  then have t: "is_update_op op = (op = ''++'' \<or> op = ''--'')"
    unfolding is_update_op_iff using assms by blast
  have s: "(\<forall>s. x \<noteq> Str s) \<Longrightarrow> \<not> is_string x"
    by (cases x) (simp_all add: is_string_def)
  show ?thesis
    using s
    by (auto simp: UnaryExpression_def PostfixExpression_def arg_def is_string_def
        to_string_def t new_object_def alloc_def object_def)
qed

theorem UnaryExpression_prefix_and_type_witness:
  "(\<forall>pre post. ''typeof'' \<noteq> pre @ ''++'' @ post \<and> ''typeof'' \<noteq> pre @ ''--'' @ post)
   \<and> (\<forall>pre post. ''-'' \<noteq> pre @ ''++'' @ post \<and> ''-'' \<noteq> pre @ ''--'' @ post)
   \<and> (\<forall>s. Ref 0 \<noteq> Str s)
   \<and> UnaryExpression sample_host [Ref 0, Str ''++''] two_declarators =
       (Inr (Ref 4),
        two_declarators @
          [JSObject Ordinary [(''type'', Str ''UpdateExpression''), (''prefix'', Boolean False),
                              (''operator'', Str ''++''), (''argument'', Ref 0)]])
   \<and> UnaryExpression sample_host [Str ''++'', Ref 0] two_declarators =
       (Inr (Ref 4),
        two_declarators @
          [JSObject Ordinary [(''type'', Str ''UpdateExpression''), (''prefix'', Boolean True),
                              (''operator'', Str ''++''), (''argument'', Ref 0)]])
   \<and> UnaryExpression sample_host [Str ''--'', Ref 0] two_declarators =
       (Inr (Ref 4),
        two_declarators @
          [JSObject Ordinary [(''type'', Str ''UpdateExpression''), (''prefix'', Boolean True),
                              (''operator'', Str ''--''), (''argument'', Ref 0)]])
   \<and> UnaryExpression sample_host [Str ''typeof'', Ref 0] two_declarators =
       (Inr (Ref 4),
        two_declarators @
          [JSObject Ordinary [(''type'', Str ''UnaryExpression''), (''prefix'', Boolean True),
                              (''operator'', Str ''typeof''), (''argument'', Ref 0)]])
   \<and> UnaryExpression sample_host [Str ''-'', Ref 0] two_declarators =
       (Inr (Ref 4),
        two_declarators @
          [JSObject Ordinary [(''type'', Str ''UnaryExpression''), (''prefix'', Boolean True),
                              (''operator'', Str ''-''), (''argument'', Ref 0)]])
   \<and> PostfixExpression [Ref 0, Str ''--''] two_declarators =
       (Inr (Ref 4),
        two_declarators @
          [JSObject Ordinary [(''type'', Str ''UpdateExpression''), (''prefix'', Boolean False),
                              (''operator'', Str ''--''), (''argument'', Ref 0)]])"
proof -
  have t: "\<forall>pre post. ''typeof'' \<noteq> pre @ ''++'' @ post \<and> ''typeof'' \<noteq> pre @ ''--'' @ post"
    by (rule no_update_op) (simp add: is_update_op_def starts_with_def)
  have m: "\<forall>pre post. ''-'' \<noteq> pre @ ''++'' @ post \<and> ''-'' \<noteq> pre @ ''--'' @ post"
    by (rule no_update_op) (simp add: is_update_op_def starts_with_def)
  have n: "length two_declarators = 4"
    by (simp add: two_declarators_def)
  from UnaryExpression_prefix_and_type
         [of "''++''" sample_host "Ref 0" two_declarators "Str ''--''"]
       UnaryExpression_prefix_and_type
         [of "''--''" sample_host "Ref 0" two_declarators "Str ''--''"]
       UnaryExpression_prefix_and_type
         [of "''typeof''" sample_host "Ref 0" two_declarators "Str ''--''"]
       UnaryExpression_prefix_and_type
         [of "''-''" sample_host "Ref 0" two_declarators "Str ''--''"]
       t m n
  show ?thesis
    by simp
qed

section \<open>Number literals\<close>











section \<open>Folding a declaration list\<close>

lemma map_of_put_same [simp]: "map_of (put name x ps) name = Some x"
  by (induction ps) auto

lemma map_of_put_other [simp]: "k \<noteq> name \<Longrightarrow> map_of (put name x ps) k = map_of ps k"
  by (induction ps) auto

text \<open>
  C6. For the sequence \<^verbatim>\<open>[decl1, '=', init1, ',', decl2, ';']\<close>, where
  \<open>decl1\<close> and \<open>decl2\<close> are two different objects of the store,
  \<^verbatim>\<open>VariableDeclaration\<close> returns a new node whose
  \<^verbatim>\<open>declarations\<close> is a new array holding exactly \<open>decl1\<close> and
  \<open>decl2\<close>, in this order; afterwards \<^verbatim>\<open>init\<close> of the first is
  \<open>init1\<close> and \<^verbatim>\<open>init\<close> of the second is \<^verbatim>\<open>null\<close>.
\<close>

theorem declaration_folding:
  assumes "a1 < length h" and "a2 < length h" and "a1 \<noteq> a2"
  shows "(case VariableDeclaration
                 [kind, Ref a1, Str ''='', init1, Str '','', Ref a2, Str '';''] h of
            (r, h') \<Rightarrow>
              r = Inr (Ref (Suc (length h)))
              \<and> own_prop h' (Ref (Suc (length h))) ''type'' = Some (Str ''VariableDeclaration'')
              \<and> own_prop h' (Ref (Suc (length h))) ''kind'' = Some kind
              \<and> own_prop h' (Ref (Suc (length h))) ''declarations'' = Some (Ref (length h))
              \<and> elements_of h' (Ref (length h)) = Some [Ref a1, Ref a2]
              \<and> own_prop h' (Ref a1) ''init'' = Some init1
              \<and> own_prop h' (Ref a2) ''init'' = Some Null)"
  using assms
  by (simp add: VariableDeclaration_def new_array_def new_object_def alloc_def array_def
      object_def arg_def fold_declarators.simps [of _ "_ # _"] shift_def set_prop_def push_def
      own_prop_def elements_of_def nth_append nth_list_update)

lemma two_declarators_folded:
  "VariableDeclaration
     [Str ''let'', Ref 1, Str ''='', Num ''1'', Str '','', Ref 3, Str '';''] two_declarators
   = (Inr (Ref 5),
      [object [(''type'', Str ''Identifier''), (''name'', Str ''a'')],
       object [(''type'', Str ''VariableDeclarator''), (''id'', Ref 0), (''init'', Num ''1'')],
       object [(''type'', Str ''Identifier''), (''name'', Str ''b'')],
       object [(''type'', Str ''VariableDeclarator''), (''id'', Ref 2), (''init'', Null)],
       array [Ref 1, Ref 3],
       object [(''type'', Str ''VariableDeclaration''), (''kind'', Str ''let''),
               (''declarations'', Ref 4)]])"
  by (simp add: VariableDeclaration_def new_array_def new_object_def alloc_def array_def
      object_def arg_def fold_declarators.simps [of _ "_ # _"] shift_def set_prop_def push_def
      two_declarators_def)

theorem declaration_folding_witness:
  "(1::nat) < length two_declarators \<and> (3::nat) < length two_declarators \<and> (1::nat) \<noteq> 3
   \<and> fst (VariableDeclaration
        [Str ''let'', Ref 1, Str ''='', Num ''1'', Str '','', Ref 3, Str '';'']
        two_declarators) = Inr (Ref 5)
   \<and> elements_of (snd (VariableDeclaration
        [Str ''let'', Ref 1, Str ''='', Num ''1'', Str '','', Ref 3, Str '';'']
        two_declarators)) (Ref 4) = Some [Ref 1, Ref 3]
   \<and> own_prop (snd (VariableDeclaration
        [Str ''let'', Ref 1, Str ''='', Num ''1'', Str '','', Ref 3, Str '';'']
        two_declarators)) (Ref 1) ''init'' = Some (Num ''1'')
   \<and> own_prop (snd (VariableDeclaration
        [Str ''let'', Ref 1, Str ''='', Num ''1'', Str '','', Ref 3, Str '';'']
        two_declarators)) (Ref 3) ''init'' = Some Null"
proof -
  have a: "(1::nat) < length two_declarators" "(3::nat) < length two_declarators"
    "(1::nat) \<noteq> 3"
    by (simp_all add: two_declarators_def)
  have n: "length two_declarators = 4"
    by (simp add: two_declarators_def)
  from declaration_folding [OF a, of "Str ''let''" "Num ''1''"] a show ?thesis
    by (simp add: case_prod_unfold n)
qed

section \<open>Literals made from keyword names\<close>

text \<open>
  C10. For a name token equal to \<^verbatim>\<open>true\<close>, \<^verbatim>\<open>false\<close> or
  \<^verbatim>\<open>null\<close>, \<^verbatim>\<open>VariableName\<close> returns a new
  \<^verbatim>\<open>Literal\<close> with exactly the properties \<^verbatim>\<open>type\<close> and
  \<^verbatim>\<open>value\<close> (the decoded value), so it has no \<^verbatim>\<open>raw\<close>. Every
  node that \<^verbatim>\<open>Number\<close>, \<^verbatim>\<open>String\<close>,
  \<^verbatim>\<open>BooleanLiteral\<close> or \<^verbatim>\<open>RegExp\<close> returns has a
  \<^verbatim>\<open>raw\<close> property equal to the token it was given.
\<close>

theorem keyword_literal_without_raw:
  "(name = ''true'' \<or> name = ''false'' \<or> name = ''null'' \<longrightarrow>
      VariableName H [Str name] h =
        (Inr (Ref (length h)),
         h @ [object [(''type'', Str ''Literal''),
                      (''value'', if name = ''null'' then Null else Boolean (name = ''true''))]])
      \<and> own_prop (snd (VariableName H [Str name] h)) (Ref (length h)) ''raw'' = None)
   \<and> (Number H [raw] h = (Inr r, h') \<longrightarrow> own_prop h' r ''raw'' = Some raw)
   \<and> (String H [raw] h = (Inr r, h') \<longrightarrow> own_prop h' r ''raw'' = Some raw)
   \<and> (BooleanLiteral [raw] h = (Inr r, h') \<longrightarrow> own_prop h' r ''raw'' = Some raw)
   \<and> (RegExp H [raw] h = (Inr r, h') \<longrightarrow> own_prop h' r ''raw'' = Some raw)"
proof -
  have v: "name = ''true'' \<or> name = ''false'' \<or> name = ''null'' \<longrightarrow>
      VariableName H [Str name] h =
        (Inr (Ref (length h)),
         h @ [object [(''type'', Str ''Literal''),
                      (''value'', if name = ''null'' then Null else Boolean (name = ''true''))]])
      \<and> own_prop (snd (VariableName H [Str name] h)) (Ref (length h)) ''raw'' = None"
    by (auto simp: VariableName_def arg_def to_string_def is_keyword_literal_def
        json_parse_def new_object_def alloc_def object_def own_prop_def)
  have n: "Number H [raw] h = (Inr r, h') \<longrightarrow> own_prop h' r ''raw'' = Some raw"
    by (auto simp: Number_def arg_def Let_def new_object_def alloc_def object_def own_prop_def
        split: if_splits jsval.splits option.splits sum.splits)
  have s: "String H [raw] h = (Inr r, h') \<longrightarrow> own_prop h' r ''raw'' = Some raw"
    by (auto simp: String_def arg_def Let_def new_object_def alloc_def object_def own_prop_def
        split: sum.splits prod.splits)
  have b: "BooleanLiteral [raw] h = (Inr r, h') \<longrightarrow> own_prop h' r ''raw'' = Some raw"
    by (auto simp: BooleanLiteral_def arg_def Let_def new_object_def alloc_def object_def
        own_prop_def)
  have x: "RegExp H [raw] h = (Inr r, h') \<longrightarrow> own_prop h' r ''raw'' = Some raw"
    by (auto simp: RegExp_def arg_def Let_def new_object_def alloc_def object_def
        own_prop_def nth_append split: sum.splits prod.splits)
  from v n s b x show ?thesis
    by blast
qed

theorem keyword_literal_without_raw_witness:
  "VariableName sample_host [Str ''null''] [] =
     (Inr (Ref 0), [object [(''type'', Str ''Literal''), (''value'', Null)]])
   \<and> own_prop (snd (VariableName sample_host [Str ''null''] [])) (Ref 0) ''raw'' = None
   \<and> own_prop (snd (Number sample_host [Str ''10n''] [])) (Ref 0) ''raw'' = Some (Str ''10n'')
   \<and> own_prop (snd (String sample_host [Str quoted_ab] [])) (Ref 0) ''raw''
       = Some (Str quoted_ab)
   \<and> own_prop (snd (BooleanLiteral [Str ''true''] [])) (Ref 0) ''raw'' = Some (Str ''true'')
   \<and> own_prop (snd (RegExp sample_host [Str ''/a+/g''] [])) (Ref 2) ''raw''
       = Some (Str ''/a+/g'')"
proof -
  have s: "String sample_host [Str quoted_ab] [] =
      (Inr (Ref 0), snd (String sample_host [Str quoted_ab] []))"
    by (simp add: String_def arg_def js_eval_def sample_host_def quoted_ab_def
        materialize_def new_object_def alloc_def)
  have n: "Number sample_host [Str ''10n''] [] =
      (Inr (Ref 0), snd (Number sample_host [Str ''10n''] []))"
    by (simp add: Number_def arg_def to_string_def ends_in_n_def str_to_bigint_def trim_def
        is_space_def starts_with_def parse_nat_def digit_val_def new_object_def alloc_def)
  have b: "BooleanLiteral [Str ''true''] [] =
      (Inr (Ref 0), snd (BooleanLiteral [Str ''true''] []))"
    by (simp add: BooleanLiteral_def arg_def new_object_def alloc_def)
  have x: "RegExp sample_host [Str ''/a+/g''] [] =
      (Inr (Ref 2), snd (RegExp sample_host [Str ''/a+/g''] []))"
    by (simp add: RegExp_def arg_def js_eval_def sample_host_def quoted_ab_def
        materialize_def get_prop_def inherited_def new_object_def alloc_def)
  from keyword_literal_without_raw
         [of "''null''" sample_host "[]" "Str ''10n''" "Ref 0"
             "snd (Number sample_host [Str ''10n''] [])"]
       keyword_literal_without_raw
         [of "''null''" sample_host "[]" "Str ''true''" "Ref 0"
             "snd (BooleanLiteral [Str ''true''] [])"]
       keyword_literal_without_raw
         [of "''null''" sample_host "[]" "Str ''/a+/g''" "Ref 2"
             "snd (RegExp sample_host [Str ''/a+/g''] [])"]
       keyword_literal_without_raw
         [of "''null''" sample_host "[]" "Str quoted_ab" "Ref 0"
             "snd (String sample_host [Str quoted_ab] [])"]
       n b x s
  show ?thesis
    by simp
qed

section \<open>What the processors change in the store\<close>

lemma filter_put_init:
  "filter (\<lambda>p. fst p \<noteq> name) (put name x ps) = filter (\<lambda>p. fst p \<noteq> name) ps"
  by (induction ps) auto

lemma shift_set: "shift xs = (x, rest) \<Longrightarrow> set rest \<subseteq> set xs"
  by (auto simp: shift_def split: list.splits)

lemma shift_ref: "shift xs = (Ref a, rest) \<Longrightarrow> Ref a \<in> set xs"
  by (auto simp: shift_def split: list.splits)

lemma set_prop_frame:
  assumes "set_prop decl ''init'' x h = Inr h1"
  shows "length h1 = length h"
    and "without_init (h1 ! a) = without_init (h ! a)"
    and "decl \<noteq> Ref a \<Longrightarrow> h1 ! a = h ! a"
  using assms
  by (auto simp: set_prop_def without_init_def filter_put_init nth_list_update
      split: jsval.splits if_splits)

lemma set_prop_error: "set_prop decl name x h = Inl e \<Longrightarrow> e = TypeError"
  by (auto simp: set_prop_def split: jsval.splits if_splits)

lemma push_frame:
  "length (push arr x h) = length h" "a \<noteq> arr \<Longrightarrow> push arr x h ! a = h ! a"
  by (auto simp: push_def split: shape.splits)

lemma fold_declarators_frame:
  "fold_declarators arr defs h = (r, h') \<Longrightarrow>
     length h' = length h
     \<and> (\<forall>a. a \<noteq> arr \<longrightarrow> without_init (h' ! a) = without_init (h ! a))
     \<and> (\<forall>a. a \<noteq> arr \<longrightarrow> Ref a \<notin> set defs \<longrightarrow> h' ! a = h ! a)
     \<and> r \<noteq> Inl MalformedSequence"
proof (induction arr defs h arbitrary: r h' rule: fold_declarators.induct)
  case (1 arr defs h)
  obtain decl defs1 where s1: "shift defs = (decl, defs1)" by (cases "shift defs")
  obtain op defs2 where s2: "shift defs1 = (op, defs2)" by (cases "shift defs1")
  obtain i defs3 where s3: "shift defs2 = (i, defs3)" by (cases "shift defs2")
  obtain o2 defs4 where s4: "shift defs3 = (o2, defs4)" by (cases "shift defs3")
  define init where "init = (if op = Str ''='' then i else Null)"
  define op' where "op' = (if op = Str ''='' then o2 else op)"
  define defs' where "defs' = (if op = Str ''='' then defs4 else defs2)"
  have sub: "set defs' \<subseteq> set defs"
    using shift_set [OF s1] shift_set [OF s2] shift_set [OF s3] shift_set [OF s4]
    by (auto simp: defs'_def)
  have unfold: "fold_declarators arr defs h =
      (case set_prop decl ''init'' init h of
         Inl e \<Rightarrow> (Inl e, h)
       | Inr h1 \<Rightarrow> (let h2 = push arr decl h1
                    in if op' = Str '','' then fold_declarators arr defs' h2 else (Inr (), h2)))"
    by (subst fold_declarators.simps)
      (simp add: s1 s2 s3 s4 init_def op'_def defs'_def Let_def
        cong del: sum.case_cong_weak if_weak_cong)
  show ?case
  proof (cases "set_prop decl ''init'' init h")
    case (Inl e)
    with unfold "1.prems" set_prop_error [OF Inl] show ?thesis by auto
  next
    case (Inr h1)
    note f = set_prop_frame [OF Inr]
    have dmem: "\<And>a. Ref a \<notin> set defs \<Longrightarrow> decl \<noteq> Ref a"
      using shift_ref s1 by blast
    show ?thesis
    proof (cases "op' = Str '',''")
      case False
      with unfold Inr "1.prems" have "h' = push arr decl h1" "r = Inr ()" by auto
      with f dmem show ?thesis by (auto simp: push_frame)
    next
      case True
      with unfold Inr "1.prems" have rec: "fold_declarators arr defs' (push arr decl h1) = (r, h')"
        by auto
      have p2: "(decl, defs1) = shift defs" by (simp add: s1)
      have p4: "(op, defs2) = shift defs1" by (simp add: s2)
      have p6: "(init, op', defs') =
          (if op = Str ''=''
           then let (i, defs3) = shift defs2; (o2, defs4) = shift defs3 in (i, o2, defs4)
           else (Null, op, defs2))"
        by (simp add: s3 s4 init_def op'_def defs'_def)
      note ih = "1.IH" [OF refl p2 refl p4 refl p6 refl Inr refl True rec]
      from ih f dmem sub show ?thesis by (auto simp: push_frame)
    qed
  qed
qed

lemma extends_refl [simp]: "extends h h"
  by (simp add: extends_def)

lemma extends_append [simp]: "extends h (h @ ext)"
  by (simp add: extends_def)

lemma new_object_extends: "new_object ps h = (r, h') \<Longrightarrow> extends h h'"
  by (auto simp: new_object_def alloc_def)

lemma new_object_extends2: "new_object ps (h @ ext) = (r, h') \<Longrightarrow> extends h h'"
  by (auto simp: new_object_def alloc_def)

lemma simple_builders_extend:
  assumes "b args h = (r, h')"
    and "b \<in> {ArgList, ArrayExpression, AssignmentExpression, BinaryExpression H, Block,
             BooleanLiteral, BreakStatement, CallExpression, ConditionalExpression,
             ContinueStatement, ExpressionStatement, FunctionDeclaration, IfStatement,
             MemberExpression}"
  shows "extends h h'"
  using assms
  by (auto simp: ArgList_def ArrayExpression_def AssignmentExpression_def
      BinaryExpression_def Block_def BooleanLiteral_def BreakStatement_def
      CallExpression_def ConditionalExpression_def ContinueStatement_def
      ExpressionStatement_def FunctionDeclaration_def IfStatement_def MemberExpression_def
      new_array_def Let_def
      dest: new_object_extends new_object_extends2 split: sum.splits)


lemma extends_iff: "extends h h' = (\<exists>ext. h' = h @ ext)"
proof
  assume "extends h h'"
  then have "h' = h @ drop (length h) h'"
    unfolding extends_def by (metis append_take_drop_id)
  then show "\<exists>ext. h' = h @ ext" ..
next
  assume "\<exists>ext. h' = h @ ext"
  then show "extends h h'"
    by (auto simp: extends_def)
qed

lemma extends_trans: "extends h h1 \<Longrightarrow> extends h1 h2 \<Longrightarrow> extends h h2"
  by (auto simp: extends_iff)

lemma materialize_extends: "materialize ev h = (v, h1) \<Longrightarrow> extends h h1"
  by (auto simp: materialize_def split: evaluated.splits)

lemma String_extends: "String H args h = (r, h') \<Longrightarrow> extends h h'"
  by (auto simp: String_def Let_def split: sum.splits prod.splits
      intro: extends_trans [OF materialize_extends new_object_extends])

lemma RegExp_extends:
  assumes "RegExp H args h = (r, h')"
  shows "extends h h'"
proof (cases "js_eval H (arg 0 args)")
  case (Inl e)
  with assms show ?thesis by (simp add: RegExp_def)
next
  case (Inr ev)
  obtain v h1 where m: "materialize ev h = (v, h1)"
    by (cases "materialize ev h")
  have e1: "extends h h1"
    using m by (rule materialize_extends)
  have "h' = h1 \<or> (\<exists>ps x. new_object ps (h1 @ [x]) = (r, h'))"
    using assms Inr m by (auto simp: RegExp_def Let_def split: sum.splits)
  then have "extends h1 h'"
    by (auto dest: new_object_extends2)
  with e1 show ?thesis
    by (rule extends_trans)
qed

lemma extends_nth: "extends h h' \<Longrightarrow> a < length h \<Longrightarrow> h' ! a = h ! a"
  by (auto simp: extends_iff nth_append)

lemma extends_length: "extends h h' \<Longrightarrow> length h \<le> length h'"
  by (auto simp: extends_iff)

lemma VariableDeclaration_unfold:
  assumes "fold_declarators (length h) (tl args) (h @ [array []]) = (u, h2)"
  shows "VariableDeclaration args h =
           (case u of
              Inl e \<Rightarrow> (Inl e, h2)
            | Inr x \<Rightarrow>
                (Inr (Ref (length h2)),
                 h2 @ [object [(''type'', Str ''VariableDeclaration''),
                               (''kind'', arg 0 args), (''declarations'', Ref (length h))]]))"
  using assms
  by (simp add: VariableDeclaration_def new_array_def new_object_def alloc_def
      split: sum.splits)

lemma VariableDeclaration_frame:
  assumes "VariableDeclaration args h = (r, h')"
  shows "length h \<le> length h'
         \<and> (\<forall>a<length h. without_init (h' ! a) = without_init (h ! a))
         \<and> (\<forall>a<length h. Ref a \<notin> set (tl args) \<longrightarrow> h' ! a = h ! a)
         \<and> r \<noteq> Inl MalformedSequence"
proof -
  obtain u h2 where f: "fold_declarators (length h) (tl args) (h @ [array []]) = (u, h2)"
    by (cases "fold_declarators (length h) (tl args) (h @ [array []])")
  from fold_declarators_frame [OF f]
  have len: "length h2 = Suc (length h)"
    and wi: "\<And>a. a < length h \<Longrightarrow> without_init (h2 ! a) = without_init (h ! a)"
    and same: "\<And>a. a < length h \<Longrightarrow> Ref a \<notin> set (tl args) \<Longrightarrow> h2 ! a = h ! a"
    and u: "u \<noteq> Inl MalformedSequence"
    by (simp_all add: nth_append)
  from assms VariableDeclaration_unfold [OF f]
  have res: "(r, h') =
           (case u of
              Inl e \<Rightarrow> (Inl e, h2)
            | Inr x \<Rightarrow>
                (Inr (Ref (length h2)),
                 h2 @ [object [(''type'', Str ''VariableDeclaration''),
                               (''kind'', arg 0 args), (''declarations'', Ref (length h))]]))"
    by simp
  have ext: "extends h2 h'"
    using res by (cases u) simp_all
  have r: "r \<noteq> Inl MalformedSequence"
    using res u by (cases u) auto
  have nth: "\<And>a. a < length h \<Longrightarrow> h' ! a = h2 ! a"
    using extends_nth [OF ext] len by simp
  have "length h \<le> length h'"
    using extends_length [OF ext] len by simp
  with wi same nth r show ?thesis
    by simp
qed


lemma Number_extends: "Number H args h = (r, h') \<Longrightarrow> extends h h'"
  by (auto simp: Number_def Let_def dest: new_object_extends
      split: if_splits jsval.splits option.splits sum.splits)

lemma VariableName_extends: "VariableName H args h = (r, h') \<Longrightarrow> extends h h'"
  by (auto simp: VariableName_def Let_def dest: new_object_extends split: if_splits)

lemma more_builders_extend:
  assumes "b args h = (r, h')"
    and "b \<in> {ObjectExpression, ParamList, ParenthesizedExpression,
             PostfixExpression, Property, PropertyName, PropertyNameDefinition,
             ReturnStatement, Script, SequenceExpression, UnaryExpression H,
             VariableDefinition, WhileStatement, token}"
  shows "extends h h'"
  using assms
  by (auto simp: ObjectExpression_def ParamList_def ParenthesizedExpression_def
      PostfixExpression_def Property_def PropertyName_def PropertyNameDefinition_def
      ReturnStatement_def Script_def SequenceExpression_def UnaryExpression_def
      VariableDefinition_def WhileStatement_def token_def
      new_array_def Let_def
      dest: new_object_extends new_object_extends2
      split: if_splits)

lemma registry_members:
  assumes "(kind, b) \<in> set (processors H)" and "kind \<noteq> ''VariableDeclaration''"
  shows "b \<in> {ArgList, ArrayExpression, AssignmentExpression, BinaryExpression H, Block,
          BooleanLiteral, BreakStatement, CallExpression, ConditionalExpression,
          ContinueStatement, ExpressionStatement, FunctionDeclaration, IfStatement,
          MemberExpression}
     \<or> b \<in> {ObjectExpression, ParamList, ParenthesizedExpression,
             PostfixExpression, Property, PropertyName, PropertyNameDefinition,
             ReturnStatement, Script, SequenceExpression, UnaryExpression H,
             VariableDefinition, WhileStatement, token}
     \<or> b \<in> {String H, RegExp H, Number H, VariableName H}"
  using assms
  apply (simp only: processors_def operator_kinds_def list.map append.simps set_simps
      insert_iff empty_iff prod.inject)
  apply (elim disjE conjE)
  apply simp_all
  done

section \<open>Declarations over a sequence of declarators\<close>

lemma fold_declarators_nullish:
  "fold_declarators arr [] h = (Inl TypeError, h)"
  "fold_declarators arr (Undefined # xs) h = (Inl TypeError, h)"
  "fold_declarators arr (Null # xs) h = (Inl TypeError, h)"
  by (simp_all add: fold_declarators.simps [of _ "[]"] fold_declarators.simps [of _ "_ # _"]
      shift_def set_prop_def split: list.splits prod.splits)

lemma set_prop_ok:
  "d \<noteq> Undefined \<Longrightarrow> d \<noteq> Null \<Longrightarrow> \<exists>h1. set_prop d name v h = Inr h1"
  by (cases d) (simp_all add: set_prop_def)

lemma fold_step_comma:
  assumes "d \<noteq> Undefined" and "d \<noteq> Null"
  shows "fold_declarators arr (d # Str '','' # xs) h =
           fold_declarators arr xs (declarator_round arr h (d, None))"
proof -
  obtain h1 where "set_prop d ''init'' Null h = Inr h1"
    using set_prop_ok [OF assms] by blast
  then show ?thesis
    by (subst fold_declarators.simps) (simp add: shift_def declarator_round_def)
qed

lemma fold_step_init_comma:
  assumes "d \<noteq> Undefined" and "d \<noteq> Null"
  shows "fold_declarators arr (d # Str ''='' # i # Str '','' # xs) h =
           fold_declarators arr xs (declarator_round arr h (d, Some i))"
proof -
  obtain h1 where "set_prop d ''init'' i h = Inr h1"
    using set_prop_ok [OF assms] by blast
  then show ?thesis
    by (subst fold_declarators.simps) (simp add: shift_def declarator_round_def)
qed

lemma fold_step_end:
  assumes "d \<noteq> Undefined" and "d \<noteq> Null"
    and "rest = [] \<or> (hd rest \<noteq> Str '','' \<and> hd rest \<noteq> Str ''='')"
  shows "fold_declarators arr (d # rest) h = (Inr (), declarator_round arr h (d, None))"
proof -
  obtain h1 where "set_prop d ''init'' Null h = Inr h1"
    using set_prop_ok [OF assms(1,2)] by blast
  with assms(3) show ?thesis
    by (subst fold_declarators.simps)
      (auto simp: shift_def declarator_round_def split: list.splits)
qed

lemma fold_step_init_end:
  assumes "d \<noteq> Undefined" and "d \<noteq> Null"
    and "rest = [] \<or> hd rest \<noteq> Str '',''"
  shows "fold_declarators arr (d # Str ''='' # i # rest) h =
           (Inr (), declarator_round arr h (d, Some i))"
proof -
  obtain h1 where "set_prop d ''init'' i h = Inr h1"
    using set_prop_ok [OF assms(1,2)] by blast
  with assms(3) show ?thesis
    by (subst fold_declarators.simps)
      (auto simp: shift_def declarator_round_def split: list.splits)
qed

lemma fold_sequence_returns:
  assumes "items \<noteq> []"
    and "list_all (\<lambda>item. fst item \<noteq> Undefined \<and> fst item \<noteq> Null) items"
    and "rest = [] \<or> (hd rest \<noteq> Str '','' \<and> hd rest \<noteq> Str ''='')"
  shows "fold_declarators arr (declarator_sequence items @ rest) h =
           (Inr (), foldl (declarator_round arr) h items)"
  using assms
proof (induction items arbitrary: h rule: declarator_sequence.induct)
  case 1
  then show ?case by simp
next
  case (2 d io)
  from "2.prems"(2) have d: "d \<noteq> Undefined" "d \<noteq> Null"
    by simp_all
  from "2.prems"(3) have r: "rest = [] \<or> hd rest \<noteq> Str '',''"
    by auto
  show ?case
    by (cases io)
      (simp_all add: fold_step_end [OF d "2.prems"(3)] fold_step_init_end [OF d r])
next
  case (3 d io item items)
  then show ?case
    by (cases io) (simp_all add: fold_step_comma fold_step_init_comma)
qed

lemma fold_sequence_fails:
  assumes "items \<noteq> []"
    and "list_all (\<lambda>item. fst item \<noteq> Undefined \<and> fst item \<noteq> Null) items"
    and "rest = [] \<or> hd rest = Undefined \<or> hd rest = Null"
  shows "fold_declarators arr (declarator_sequence items @ Str '','' # rest) h =
           (Inl TypeError, foldl (declarator_round arr) h items)"
  using assms
proof (induction items arbitrary: h rule: declarator_sequence.induct)
  case 1
  then show ?case by simp
next
  case (2 d io)
  have n: "fold_declarators arr rest h' = (Inl TypeError, h')" for h'
    using "2.prems"(3) by (cases rest) (auto simp: fold_declarators_nullish)
  from 2 show ?case
    by (cases io) (simp_all add: fold_step_comma fold_step_init_comma n)
next
  case (3 d io item items)
  then show ?case
    by (cases io) (simp_all add: fold_step_comma fold_step_init_comma)
qed

lemma round_ref:
  assumes "a < length h" and "arr < length h" and "a \<noteq> arr"
    and "shape (h ! arr) = Elements es"
  shows "declarator_round arr h (Ref a, io) =
           h[a := JSObject (shape (h ! a))
                    (put ''init'' (case io of None \<Rightarrow> Null | Some i \<Rightarrow> i) (props (h ! a))),
             arr := JSObject (Elements (es @ [Ref a])) (props (h ! arr))]"
  using assms by (simp add: declarator_round_def set_prop_def push_def)

lemma rounds_refs:
  assumes "arr < length h" and "shape (h ! arr) = Elements es"
    and "arr \<notin> fst ` set ds" and "distinct (map fst ds)"
    and "\<forall>a\<in>fst ` set ds. a < length h"
  shows "length (foldl (declarator_round arr) h (as_declarators ds)) = length h
         \<and> foldl (declarator_round arr) h (as_declarators ds) ! arr =
             JSObject (Elements (es @ map (\<lambda>d. Ref (fst d)) ds)) (props (h ! arr))
         \<and> (\<forall>d\<in>set ds.
              foldl (declarator_round arr) h (as_declarators ds) ! fst d =
                JSObject (shape (h ! fst d))
                  (put ''init'' (case snd d of None \<Rightarrow> Null | Some i \<Rightarrow> i)
                     (props (h ! fst d))))
         \<and> (\<forall>a<length h. a \<noteq> arr \<longrightarrow> a \<notin> fst ` set ds \<longrightarrow>
              foldl (declarator_round arr) h (as_declarators ds) ! a = h ! a)"
  using assms
proof (induction ds arbitrary: h es)
  case Nil
  then show ?case
    by (cases "h ! arr") (simp add: as_declarators_def)
next
  case (Cons d ds)
  obtain a io where d: "d = (a, io)"
    by (cases d)
  define h1 where "h1 = declarator_round arr h (Ref a, io)"
  from Cons.prems d have a: "a < length h" "a \<noteq> arr"
    by auto
  have h1: "h1 = h[a := JSObject (shape (h ! a))
                    (put ''init'' (case io of None \<Rightarrow> Null | Some i \<Rightarrow> i) (props (h ! a))),
             arr := JSObject (Elements (es @ [Ref a])) (props (h ! arr))]"
    unfolding h1_def by (rule round_ref [OF a(1) Cons.prems(1) a(2) Cons.prems(2)])
  have len: "length h1 = length h"
    by (simp add: h1)
  have arr1: "shape (h1 ! arr) = Elements (es @ [Ref a])" "props (h1 ! arr) = props (h ! arr)"
    using Cons.prems(1) by (simp_all add: h1)
  have pre: "arr < length h1" "arr \<notin> fst ` set ds" "distinct (map fst ds)"
    "\<forall>a\<in>fst ` set ds. a < length h1"
    using Cons.prems len by auto
  note ih = Cons.IH [OF pre(1) arr1(1) pre(2,3,4)]
  have fold: "foldl (declarator_round arr) h (as_declarators (d # ds)) =
      foldl (declarator_round arr) h1 (as_declarators ds)"
    by (simp add: as_declarators_def d h1_def)
  have notin: "a \<notin> fst ` set ds"
    using Cons.prems(4) d by force
  have other: "h1 ! b = h ! b" if "b \<noteq> a" "b \<noteq> arr" for b
    using that by (simp add: h1)
  have at_a: "h1 ! a = JSObject (shape (h ! a))
      (put ''init'' (case io of None \<Rightarrow> Null | Some i \<Rightarrow> i) (props (h ! a)))"
    using a by (simp add: h1)
  show ?case
    unfolding fold
  proof (intro conjI ballI allI impI)
    show "length (foldl (declarator_round arr) h1 (as_declarators ds)) = length h"
      using ih len by simp
    show "foldl (declarator_round arr) h1 (as_declarators ds) ! arr =
        JSObject (Elements (es @ map (\<lambda>d. Ref (fst d)) (d # ds))) (props (h ! arr))"
      using ih arr1 by (simp add: d)
  next
    fix x assume x: "x \<in> set (d # ds)"
    show "foldl (declarator_round arr) h1 (as_declarators ds) ! fst x =
        JSObject (shape (h ! fst x))
          (put ''init'' (case snd x of None \<Rightarrow> Null | Some i \<Rightarrow> i) (props (h ! fst x)))"
    proof (cases "x = d")
      case True
      have "foldl (declarator_round arr) h1 (as_declarators ds) ! a = h1 ! a"
        using ih a notin len by simp
      with at_a True d show ?thesis by simp
    next
      case False
      with x have m: "x \<in> set ds" by simp
      then have "fst x \<noteq> a" using notin by force
      moreover have "fst x \<noteq> arr" using m pre(2) by force
      ultimately have "h1 ! fst x = h ! fst x" by (rule other)
      with ih m show ?thesis by simp
    qed
  next
    fix b assume b: "b < length h" "b \<noteq> arr" "b \<notin> fst ` set (d # ds)"
    then have "b \<noteq> a" "b \<notin> fst ` set ds" using d by auto
    with ih b len other show "foldl (declarator_round arr) h1 (as_declarators ds) ! b = h ! b"
      by simp
  qed
qed

lemma set_prop_shape:
  "set_prop d name v h = Inr h1 \<Longrightarrow> length h1 = length h \<and> shape (h1 ! a) = shape (h ! a)"
  by (auto simp: set_prop_def nth_list_update split: jsval.splits if_splits)

lemma round_elements:
  assumes "arr < length h" and "shape (h ! arr) = Elements es"
    and "d \<noteq> Undefined" and "d \<noteq> Null"
  shows "length (declarator_round arr h (d, io)) = length h
         \<and> shape (declarator_round arr h (d, io) ! arr) = Elements (es @ [d])"
proof -
  obtain h1 where s: "set_prop d ''init'' (case io of None \<Rightarrow> Null | Some i \<Rightarrow> i) h = Inr h1"
    using set_prop_ok [OF assms(3,4)] by blast
  from set_prop_shape [OF s, of arr] assms(1,2) show ?thesis
    by (simp add: declarator_round_def s push_def)
qed

lemma rounds_elements:
  assumes "arr < length h" and "shape (h ! arr) = Elements es"
    and "list_all (\<lambda>item. fst item \<noteq> Undefined \<and> fst item \<noteq> Null) items"
  shows "length (foldl (declarator_round arr) h items) = length h
         \<and> shape (foldl (declarator_round arr) h items ! arr) = Elements (es @ map fst items)"
  using assms
proof (induction items arbitrary: h es)
  case Nil
  then show ?case by simp
next
  case (Cons item items)
  obtain d io where i: "item = (d, io)"
    by (cases item)
  from Cons.prems(3) i have d: "d \<noteq> Undefined" "d \<noteq> Null"
    by simp_all
  note r = round_elements [OF Cons.prems(1,2) d, of io]
  from Cons.prems(3) have rest: "list_all (\<lambda>item. fst item \<noteq> Undefined \<and> fst item \<noteq> Null) items"
    by simp
  from r Cons.prems(1) have lt: "arr < length (declarator_round arr h (d, io))"
    by simp
  from Cons.IH [OF lt conjunct2 [OF r] rest] r show ?case
    by (simp add: i)
qed

lemma VariableDeclaration_sequence:
  assumes "items \<noteq> []"
    and "list_all (\<lambda>item. fst item \<noteq> Undefined \<and> fst item \<noteq> Null) items"
    and "rest = [] \<or> (hd rest \<noteq> Str '','' \<and> hd rest \<noteq> Str ''='')"
  shows "VariableDeclaration (kind # declarator_sequence items @ rest) h =
           (Inr (Ref (Suc (length h))),
            foldl (declarator_round (length h)) (h @ [JSObject (Elements []) []]) items
              @ [JSObject Ordinary
                   [(''type'', Str ''VariableDeclaration''), (''kind'', kind),
                    (''declarations'', Ref (length h))]])"
proof -
  have f: "fold_declarators (length h) (tl (kind # declarator_sequence items @ rest))
             (h @ [array []]) =
           (Inr (), foldl (declarator_round (length h)) (h @ [array []]) items)"
    using fold_sequence_returns [OF assms] by simp
  have "length (foldl (declarator_round (length h)) (h @ [array []]) items) = Suc (length h)"
    using rounds_elements [of "length h" "h @ [array []]" "[]" items] assms(2)
    by (simp add: array_def)
  with VariableDeclaration_unfold [OF f] show ?thesis
    by (simp add: arg_def array_def object_def)
qed

lemma VariableDeclaration_sequence_fails:
  assumes "items \<noteq> []"
    and "list_all (\<lambda>item. fst item \<noteq> Undefined \<and> fst item \<noteq> Null) items"
    and "rest = [] \<or> hd rest = Undefined \<or> hd rest = Null"
  shows "fst (VariableDeclaration (kind # declarator_sequence items @ Str '','' # rest) h)
         = Inl TypeError"
proof -
  have f: "fold_declarators (length h)
             (tl (kind # declarator_sequence items @ Str '','' # rest)) (h @ [array []]) =
           (Inl TypeError, foldl (declarator_round (length h)) (h @ [array []]) items)"
    using fold_sequence_fails [OF assms] by simp
  show ?thesis
    by (simp add: VariableDeclaration_unfold [OF f])
qed

lemma VariableDeclaration_nullish:
  assumes "d = Undefined \<or> d = Null"
  shows "fst (VariableDeclaration [kind] h) = Inl TypeError"
    and "fst (VariableDeclaration (kind # d # rest) h) = Inl TypeError"
proof -
  have "fold_declarators (length h) (tl [kind]) (h @ [array []]) = (Inl TypeError, h @ [array []])"
    by (simp add: fold_declarators_nullish)
  then show "fst (VariableDeclaration [kind] h) = Inl TypeError"
    by (simp add: VariableDeclaration_unfold)
  have "fold_declarators (length h) (tl (kind # d # rest)) (h @ [array []])
        = (Inl TypeError, h @ [array []])"
    using assms by (auto simp: fold_declarators_nullish)
  then show "fst (VariableDeclaration (kind # d # rest) h) = Inl TypeError"
    by (simp add: VariableDeclaration_unfold)
qed

lemma fold_declarators_only_TypeError:
  "fold_declarators arr defs h = (Inl e, h') \<Longrightarrow> e = TypeError"
proof (induction arr defs h arbitrary: h' rule: fold_declarators.induct)
  case (1 arr defs h)
  obtain decl defs1 where s1: "shift defs = (decl, defs1)" by (cases "shift defs")
  obtain op defs2 where s2: "shift defs1 = (op, defs2)" by (cases "shift defs1")
  obtain i defs3 where s3: "shift defs2 = (i, defs3)" by (cases "shift defs2")
  obtain o2 defs4 where s4: "shift defs3 = (o2, defs4)" by (cases "shift defs3")
  define init where "init = (if op = Str ''='' then i else Null)"
  define op' where "op' = (if op = Str ''='' then o2 else op)"
  define defs' where "defs' = (if op = Str ''='' then defs4 else defs2)"
  have unfold: "fold_declarators arr defs h =
      (case set_prop decl ''init'' init h of
         Inl e \<Rightarrow> (Inl e, h)
       | Inr h1 \<Rightarrow> (let h2 = push arr decl h1
                    in if op' = Str '','' then fold_declarators arr defs' h2 else (Inr (), h2)))"
    by (subst fold_declarators.simps)
      (simp add: s1 s2 s3 s4 init_def op'_def defs'_def Let_def
        cong del: sum.case_cong_weak if_weak_cong)
  show ?case
  proof (cases "set_prop decl ''init'' init h")
    case (Inl e')
    with unfold "1.prems" set_prop_error [OF Inl] show ?thesis by auto
  next
    case (Inr h1)
    show ?thesis
    proof (cases "op' = Str '',''")
      case False
      with unfold Inr "1.prems" show ?thesis by auto
    next
      case True
      with unfold Inr "1.prems"
      have rec: "fold_declarators arr defs' (push arr decl h1) = (Inl e, h')"
        by auto
      have p2: "(decl, defs1) = shift defs" by (simp add: s1)
      have p4: "(op, defs2) = shift defs1" by (simp add: s2)
      have p6: "(init, op', defs') =
          (if op = Str ''=''
           then let (i, defs3) = shift defs2; (o2, defs4) = shift defs3 in (i, o2, defs4)
           else (Null, op, defs2))"
        by (simp add: s3 s4 init_def op'_def defs'_def)
      show ?thesis
        by (rule "1.IH" [OF refl p2 refl p4 refl p6 refl Inr refl True rec])
    qed
  qed
qed

lemma VariableDeclaration_only_TypeError:
  assumes "fst (VariableDeclaration args h) = Inl e"
  shows "e = TypeError"
proof -
  obtain u h2 where f: "fold_declarators (length h) (tl args) (h @ [array []]) = (u, h2)"
    by (cases "fold_declarators (length h) (tl args) (h @ [array []])")
  from assms VariableDeclaration_unfold [OF f] have "u = Inl e"
    by (cases u) simp_all
  with f fold_declarators_only_TypeError show ?thesis
    by blast
qed

lemma VariableDeclaration_on_declarators:
  assumes "ds \<noteq> []" and "distinct (map fst ds)" and "\<forall>a\<in>fst ` set ds. a < length h"
    and "rest = [] \<or> (hd rest \<noteq> Str '','' \<and> hd rest \<noteq> Str ''='')"
  shows "\<exists>h'. VariableDeclaration
                (kind # declarator_sequence (map (\<lambda>d. (Ref (fst d), snd d)) ds) @ rest) h
              = (Inr (Ref (Suc (length h))), h')
           \<and> length h' = length h + 2
           \<and> h' ! length h = JSObject (Elements (map (\<lambda>d. Ref (fst d)) ds)) []
           \<and> h' ! Suc (length h) =
               JSObject Ordinary
                 [(''type'', Str ''VariableDeclaration''), (''kind'', kind),
                  (''declarations'', Ref (length h))]
           \<and> (\<forall>d\<in>set ds.
                h' ! fst d =
                  JSObject (shape (h ! fst d))
                    (put ''init'' (case snd d of None \<Rightarrow> Null | Some i \<Rightarrow> i)
                       (props (h ! fst d))))
           \<and> (\<forall>a<length h. a \<notin> fst ` set ds \<longrightarrow> h' ! a = h ! a)"
proof -
  let ?items = "map (\<lambda>d. (Ref (fst d), snd d)) ds"
  let ?h0 = "h @ [JSObject (Elements []) []]"
  let ?h1 = "foldl (declarator_round (length h)) ?h0 ?items"
  let ?node = "JSObject Ordinary
                 [(''type'', Str ''VariableDeclaration''), (''kind'', kind),
                  (''declarations'', Ref (length h))]"
  have items: "?items \<noteq> []"
    "list_all (\<lambda>item. fst item \<noteq> Undefined \<and> fst item \<noteq> Null) ?items"
    using assms(1) by (simp_all add: list_all_iff)
  have vd: "VariableDeclaration (kind # declarator_sequence ?items @ rest) h
            = (Inr (Ref (Suc (length h))), ?h1 @ [?node])"
    by (rule VariableDeclaration_sequence [OF items assms(4)])
  have pre: "length h < length ?h0" "shape (?h0 ! length h) = Elements []"
    "length h \<notin> fst ` set ds" "\<forall>a\<in>fst ` set ds. a < length ?h0"
    using assms(3) by auto
  from rounds_refs [OF pre(1,2,3) assms(2) pre(4)]
  have len: "length ?h1 = Suc (length h)"
    and arr: "?h1 ! length h = JSObject (Elements (map (\<lambda>d. Ref (fst d)) ds)) []"
    and wr: "\<And>d. d \<in> set ds \<Longrightarrow> ?h1 ! fst d =
                JSObject (shape (?h0 ! fst d))
                  (put ''init'' (case snd d of None \<Rightarrow> Null | Some i \<Rightarrow> i)
                     (props (?h0 ! fst d)))"
    and same: "\<And>a. a < Suc (length h) \<Longrightarrow> a \<noteq> length h \<Longrightarrow> a \<notin> fst ` set ds
                \<Longrightarrow> ?h1 ! a = ?h0 ! a"
    by (simp_all add: as_declarators_def)
  have "length (?h1 @ [?node]) = length h + 2"
    using len by simp
  moreover have "(?h1 @ [?node]) ! length h = JSObject (Elements (map (\<lambda>d. Ref (fst d)) ds)) []"
    using len arr by (simp add: nth_append)
  moreover have "(?h1 @ [?node]) ! Suc (length h) = ?node"
    using len by (simp add: nth_append)
  moreover have "\<forall>d\<in>set ds. (?h1 @ [?node]) ! fst d =
      JSObject (shape (h ! fst d))
        (put ''init'' (case snd d of None \<Rightarrow> Null | Some i \<Rightarrow> i) (props (h ! fst d)))"
  proof
    fix d assume d: "d \<in> set ds"
    with assms(3) have lt: "fst d < length h" by auto
    with wr [OF d] len show "(?h1 @ [?node]) ! fst d =
      JSObject (shape (h ! fst d))
        (put ''init'' (case snd d of None \<Rightarrow> Null | Some i \<Rightarrow> i) (props (h ! fst d)))"
      by (simp add: nth_append)
  qed
  moreover have "\<forall>a<length h. a \<notin> fst ` set ds \<longrightarrow> (?h1 @ [?node]) ! a = h ! a"
    using same len by (simp add: nth_append)
  ultimately show ?thesis
    using vd by blast
qed

lemma without_init_eq:
  "without_init x = without_init y \<longleftrightarrow>
     shape x = shape y
     \<and> filter (\<lambda>p. fst p \<noteq> ''init'') (props x) = filter (\<lambda>p. fst p \<noteq> ''init'') (props y)"
  by (simp add: without_init_def)

lemma registered_builders_frame:
  assumes reg: "map_of (processors H) kind = Some b" and call: "b args h = (r, h')"
  shows "length h \<le> length h'
      \<and> (\<forall>a<length h.
            shape (h' ! a) = shape (h ! a)
            \<and> filter (\<lambda>p. fst p \<noteq> ''init'') (props (h' ! a))
                = filter (\<lambda>p. fst p \<noteq> ''init'') (props (h ! a)))
      \<and> (\<forall>a<length h. kind \<noteq> ''VariableDeclaration'' \<or> Ref a \<notin> set (tl args)
            \<longrightarrow> h' ! a = h ! a)"
proof (cases "kind = ''VariableDeclaration''")
  case True
  with reg have "b = VariableDeclaration"
    by (simp add: processors_def)
  with call VariableDeclaration_frame [of args h r h'] True show ?thesis
    by (simp add: without_init_eq)
next
  case False
  from reg have "(kind, b) \<in> set (processors H)"
    by (rule map_of_SomeD)
  from registry_members [OF this False] have "extends h h'"
  proof (elim disjE)
    assume "b \<in> {String H, RegExp H, Number H, VariableName H}"
    with call show ?thesis
      by (auto dest: String_extends RegExp_extends Number_extends VariableName_extends)
  qed (use call in \<open>auto dest: simple_builders_extend more_builders_extend\<close>)
  then show ?thesis
    by (simp add: extends_nth extends_length)
qed

lemma VariableDeclaration_observed:
  assumes "ds \<noteq> []" and "distinct (map fst ds)" and "\<forall>a\<in>fst ` set ds. a < length h"
    and "rest = [] \<or> (hd rest \<noteq> Str '','' \<and> hd rest \<noteq> Str ''='')"
  shows "case VariableDeclaration
              (k # declarator_sequence (map (\<lambda>d. (Ref (fst d), snd d)) ds) @ rest) h of
         (r2, h2) \<Rightarrow>
           r2 = Inr (Ref (Suc (length h)))
           \<and> length h2 = length h + 2
           \<and> h2 ! length h = JSObject (Elements (map (\<lambda>d. Ref (fst d)) ds)) []
           \<and> h2 ! Suc (length h) =
               JSObject Ordinary
                 [(''type'', Str ''VariableDeclaration''), (''kind'', k),
                  (''declarations'', Ref (length h))]
           \<and> (\<forall>d\<in>set ds.
                 map_of (props (h2 ! fst d)) ''init''
                   = Some (case snd d of None \<Rightarrow> Null | Some i \<Rightarrow> i)
                 \<and> shape (h2 ! fst d) = shape (h ! fst d)
                 \<and> filter (\<lambda>p. fst p \<noteq> ''init'') (props (h2 ! fst d))
                     = filter (\<lambda>p. fst p \<noteq> ''init'') (props (h ! fst d)))
           \<and> (\<forall>a<length h. a \<notin> fst ` set ds \<longrightarrow> h2 ! a = h ! a)"
proof -
  from VariableDeclaration_on_declarators [OF assms, of k]
  obtain h2 where vd: "VariableDeclaration
                (k # declarator_sequence (map (\<lambda>d. (Ref (fst d), snd d)) ds) @ rest) h
              = (Inr (Ref (Suc (length h))), h2)"
    and len: "length h2 = length h + 2"
    and arr: "h2 ! length h = JSObject (Elements (map (\<lambda>d. Ref (fst d)) ds)) []"
    and node: "h2 ! Suc (length h) =
               JSObject Ordinary
                 [(''type'', Str ''VariableDeclaration''), (''kind'', k),
                  (''declarations'', Ref (length h))]"
    and wr: "\<forall>d\<in>set ds.
                h2 ! fst d =
                  JSObject (shape (h ! fst d))
                    (put ''init'' (case snd d of None \<Rightarrow> Null | Some i \<Rightarrow> i)
                       (props (h ! fst d)))"
    and same: "\<forall>a<length h. a \<notin> fst ` set ds \<longrightarrow> h2 ! a = h ! a"
    by blast
  have obs: "\<forall>d\<in>set ds.
                 map_of (props (h2 ! fst d)) ''init''
                   = Some (case snd d of None \<Rightarrow> Null | Some i \<Rightarrow> i)
                 \<and> shape (h2 ! fst d) = shape (h ! fst d)
                 \<and> filter (\<lambda>p. fst p \<noteq> ''init'') (props (h2 ! fst d))
                     = filter (\<lambda>p. fst p \<noteq> ''init'') (props (h ! fst d))"
    using wr by (simp add: filter_put_init)
  from len arr node obs same show ?thesis
    by (simp add: vd)
qed

text \<open>
  C1, as the code has it. Every processor of the registry only adds objects to the
  store, with one exception: \<^verbatim>\<open>VariableDeclaration\<close> writes the property
  \<^verbatim>\<open>init\<close> into the declarators it is given.

  First, for every call of a registered processor, on any children: no object
  disappears; every object that existed before the call keeps its kind and all its
  properties other than \<^verbatim>\<open>init\<close>, in their order; and it is exactly what
  it was unless the processor is \<^verbatim>\<open>VariableDeclaration\<close> and the object
  is one of the children after the first.

  Second, for \<^verbatim>\<open>VariableDeclaration\<close> on a sequence of different declarator
  objects, each with or without an initializer, followed by nothing or by a token other
  than \<^verbatim>\<open>','\<close> and \<^verbatim>\<open>'='\<close>: it returns a new node whose
  \<^verbatim>\<open>declarations\<close> is a new array of exactly these declarators in order;
  afterwards \<^verbatim>\<open>init\<close> of each declarator is its initializer, or
  \<^verbatim>\<open>null\<close> when it has none, and nothing else of it has changed; every
  other object that existed before, an initializer included, is exactly what it was.
\<close>

theorem builders_write_only_init:
  "(map_of (processors H) kind = Some b \<and> b args h = (r, h') \<longrightarrow>
      length h \<le> length h'
      \<and> (\<forall>a<length h.
            shape (h' ! a) = shape (h ! a)
            \<and> filter (\<lambda>p. fst p \<noteq> ''init'') (props (h' ! a))
                = filter (\<lambda>p. fst p \<noteq> ''init'') (props (h ! a)))
      \<and> (\<forall>a<length h. kind \<noteq> ''VariableDeclaration'' \<or> Ref a \<notin> set (tl args)
            \<longrightarrow> h' ! a = h ! a))
   \<and> (ds \<noteq> [] \<and> distinct (map fst ds) \<and> (\<forall>a\<in>fst ` set ds. a < length h)
       \<and> (rest = [] \<or> (hd rest \<noteq> Str '','' \<and> hd rest \<noteq> Str ''='')) \<longrightarrow>
      (case VariableDeclaration
              (k # declarator_sequence (map (\<lambda>d. (Ref (fst d), snd d)) ds) @ rest) h of
         (r2, h2) \<Rightarrow>
           r2 = Inr (Ref (Suc (length h)))
           \<and> length h2 = length h + 2
           \<and> h2 ! length h = JSObject (Elements (map (\<lambda>d. Ref (fst d)) ds)) []
           \<and> h2 ! Suc (length h) =
               JSObject Ordinary
                 [(''type'', Str ''VariableDeclaration''), (''kind'', k),
                  (''declarations'', Ref (length h))]
           \<and> (\<forall>d\<in>set ds.
                 map_of (props (h2 ! fst d)) ''init''
                   = Some (case snd d of None \<Rightarrow> Null | Some i \<Rightarrow> i)
                 \<and> shape (h2 ! fst d) = shape (h ! fst d)
                 \<and> filter (\<lambda>p. fst p \<noteq> ''init'') (props (h2 ! fst d))
                     = filter (\<lambda>p. fst p \<noteq> ''init'') (props (h ! fst d)))
           \<and> (\<forall>a<length h. a \<notin> fst ` set ds \<longrightarrow> h2 ! a = h ! a)))"
proof (rule conjI)
  show "map_of (processors H) kind = Some b \<and> b args h = (r, h') \<longrightarrow>
      length h \<le> length h'
      \<and> (\<forall>a<length h.
            shape (h' ! a) = shape (h ! a)
            \<and> filter (\<lambda>p. fst p \<noteq> ''init'') (props (h' ! a))
                = filter (\<lambda>p. fst p \<noteq> ''init'') (props (h ! a)))
      \<and> (\<forall>a<length h. kind \<noteq> ''VariableDeclaration'' \<or> Ref a \<notin> set (tl args)
            \<longrightarrow> h' ! a = h ! a)"
  proof (rule impI, erule conjE)
    assume "map_of (processors H) kind = Some b" and "b args h = (r, h')"
    then show "length h \<le> length h'
      \<and> (\<forall>a<length h.
            shape (h' ! a) = shape (h ! a)
            \<and> filter (\<lambda>p. fst p \<noteq> ''init'') (props (h' ! a))
                = filter (\<lambda>p. fst p \<noteq> ''init'') (props (h ! a)))
      \<and> (\<forall>a<length h. kind \<noteq> ''VariableDeclaration'' \<or> Ref a \<notin> set (tl args)
            \<longrightarrow> h' ! a = h ! a)"
      by (rule registered_builders_frame)
  qed
next
  show "ds \<noteq> [] \<and> distinct (map fst ds) \<and> (\<forall>a\<in>fst ` set ds. a < length h)
       \<and> (rest = [] \<or> (hd rest \<noteq> Str '','' \<and> hd rest \<noteq> Str ''='')) \<longrightarrow>
      (case VariableDeclaration
              (k # declarator_sequence (map (\<lambda>d. (Ref (fst d), snd d)) ds) @ rest) h of
         (r2, h2) \<Rightarrow>
           r2 = Inr (Ref (Suc (length h)))
           \<and> length h2 = length h + 2
           \<and> h2 ! length h = JSObject (Elements (map (\<lambda>d. Ref (fst d)) ds)) []
           \<and> h2 ! Suc (length h) =
               JSObject Ordinary
                 [(''type'', Str ''VariableDeclaration''), (''kind'', k),
                  (''declarations'', Ref (length h))]
           \<and> (\<forall>d\<in>set ds.
                 map_of (props (h2 ! fst d)) ''init''
                   = Some (case snd d of None \<Rightarrow> Null | Some i \<Rightarrow> i)
                 \<and> shape (h2 ! fst d) = shape (h ! fst d)
                 \<and> filter (\<lambda>p. fst p \<noteq> ''init'') (props (h2 ! fst d))
                     = filter (\<lambda>p. fst p \<noteq> ''init'') (props (h ! fst d)))
           \<and> (\<forall>a<length h. a \<notin> fst ` set ds \<longrightarrow> h2 ! a = h ! a))"
  proof (rule impI, elim conjE)
    assume "ds \<noteq> []" and "distinct (map fst ds)" and "\<forall>a\<in>fst ` set ds. a < length h"
      and "rest = [] \<or> (hd rest \<noteq> Str '','' \<and> hd rest \<noteq> Str ''='')"
    then show "case VariableDeclaration
              (k # declarator_sequence (map (\<lambda>d. (Ref (fst d), snd d)) ds) @ rest) h of
         (r2, h2) \<Rightarrow>
           r2 = Inr (Ref (Suc (length h)))
           \<and> length h2 = length h + 2
           \<and> h2 ! length h = JSObject (Elements (map (\<lambda>d. Ref (fst d)) ds)) []
           \<and> h2 ! Suc (length h) =
               JSObject Ordinary
                 [(''type'', Str ''VariableDeclaration''), (''kind'', k),
                  (''declarations'', Ref (length h))]
           \<and> (\<forall>d\<in>set ds.
                 map_of (props (h2 ! fst d)) ''init''
                   = Some (case snd d of None \<Rightarrow> Null | Some i \<Rightarrow> i)
                 \<and> shape (h2 ! fst d) = shape (h ! fst d)
                 \<and> filter (\<lambda>p. fst p \<noteq> ''init'') (props (h2 ! fst d))
                     = filter (\<lambda>p. fst p \<noteq> ''init'') (props (h ! fst d)))
           \<and> (\<forall>a<length h. a \<notin> fst ` set ds \<longrightarrow> h2 ! a = h ! a)"
      by (rule VariableDeclaration_observed)
  qed
qed

theorem builders_write_only_init_witness:
  "map_of (processors sample_host) ''VariableDefinition'' = Some VariableDefinition
   \<and> VariableDefinition [Str ''c''] two_declarators =
       (Inr (Ref 5),
        two_declarators @
          [JSObject Ordinary [(''type'', Str ''Identifier''), (''name'', Str ''c'')],
           JSObject Ordinary [(''type'', Str ''VariableDeclarator''), (''id'', Ref 4)]])
   \<and> snd (VariableDefinition [Str ''c''] two_declarators) ! 1 = two_declarators ! 1
   \<and> distinct [1 :: nat, 3]
   \<and> (1 :: nat) < length two_declarators \<and> (3 :: nat) < length two_declarators
   \<and> Str '';'' \<noteq> Str '','' \<and> Str '';'' \<noteq> Str ''=''
   \<and> fst (VariableDeclaration
        [Str ''let'', Ref 1, Str ''='', Ref 2, Str '','', Ref 3, Str '';''] two_declarators)
       = Inr (Ref 5)
   \<and> snd (VariableDeclaration
        [Str ''let'', Ref 1, Str ''='', Ref 2, Str '','', Ref 3, Str '';''] two_declarators) ! 4
       = JSObject (Elements [Ref 1, Ref 3]) []
   \<and> map_of (props (snd (VariableDeclaration
        [Str ''let'', Ref 1, Str ''='', Ref 2, Str '','', Ref 3, Str '';''] two_declarators) ! 1))
        ''init'' = Some (Ref 2)
   \<and> map_of (props (snd (VariableDeclaration
        [Str ''let'', Ref 1, Str ''='', Ref 2, Str '','', Ref 3, Str '';''] two_declarators) ! 3))
        ''init'' = Some Null
   \<and> snd (VariableDeclaration
        [Str ''let'', Ref 1, Str ''='', Ref 2, Str '','', Ref 3, Str '';''] two_declarators) ! 2
       = two_declarators ! 2
   \<and> snd (VariableDeclaration
        [Str ''let'', Ref 1, Str ''='', Ref 2, Str '','', Ref 3, Str '';''] two_declarators) ! 0
       = two_declarators ! 0"
proof -
  have m: "map_of (processors sample_host) ''VariableDefinition'' = Some VariableDefinition"
    by (simp add: processors_def)
  have e: "VariableDefinition [Str ''c''] two_declarators =
       (Inr (Ref 5),
        two_declarators @
          [JSObject Ordinary [(''type'', Str ''Identifier''), (''name'', Str ''c'')],
           JSObject Ordinary [(''type'', Str ''VariableDeclarator''), (''id'', Ref 4)]])"
    by (simp add: VariableDefinition_def new_object_def alloc_def object_def arg_def
        two_declarators_def)
  have n: "length two_declarators = 4"
    by (simp add: two_declarators_def)
  note t = builders_write_only_init
         [of sample_host "''VariableDefinition''" VariableDefinition "[Str ''c'']"
             two_declarators "Inr (Ref 5)"
             "two_declarators @
                [JSObject Ordinary [(''type'', Str ''Identifier''), (''name'', Str ''c'')],
                 JSObject Ordinary [(''type'', Str ''VariableDeclarator''), (''id'', Ref 4)]]"
             "[(1, Some (Ref 2)), (3, None)]" "[Str '';'']" "Str ''let''"]
  from conjunct1 [OF t] m e n
  have p1: "snd (VariableDefinition [Str ''c''] two_declarators) ! 1 = two_declarators ! 1"
    by simp
  have pre: "[(1 :: nat, Some (Ref 2)), (3, None)] \<noteq> []
       \<and> distinct (map fst [(1 :: nat, Some (Ref 2)), (3, None)])
       \<and> (\<forall>a\<in>fst ` set [(1 :: nat, Some (Ref 2)), (3, None)]. a < length two_declarators)
       \<and> ([Str '';''] = [] \<or> (hd [Str '';''] \<noteq> Str '','' \<and> hd [Str '';''] \<noteq> Str ''=''))"
    by (simp add: n)
  from mp [OF conjunct2 [OF t] pre]
  have p2: "fst (VariableDeclaration
        [Str ''let'', Ref 1, Str ''='', Ref 2, Str '','', Ref 3, Str '';''] two_declarators)
       = Inr (Ref 5)
   \<and> snd (VariableDeclaration
        [Str ''let'', Ref 1, Str ''='', Ref 2, Str '','', Ref 3, Str '';''] two_declarators) ! 4
       = JSObject (Elements [Ref 1, Ref 3]) []
   \<and> map_of (props (snd (VariableDeclaration
        [Str ''let'', Ref 1, Str ''='', Ref 2, Str '','', Ref 3, Str '';''] two_declarators) ! 1))
        ''init'' = Some (Ref 2)
   \<and> map_of (props (snd (VariableDeclaration
        [Str ''let'', Ref 1, Str ''='', Ref 2, Str '','', Ref 3, Str '';''] two_declarators) ! 3))
        ''init'' = Some Null
   \<and> snd (VariableDeclaration
        [Str ''let'', Ref 1, Str ''='', Ref 2, Str '','', Ref 3, Str '';''] two_declarators) ! 2
       = two_declarators ! 2
   \<and> snd (VariableDeclaration
        [Str ''let'', Ref 1, Str ''='', Ref 2, Str '','', Ref 3, Str '';''] two_declarators) ! 0
       = two_declarators ! 0"
    by (simp add: case_prod_unfold n)
  from m e p1 p2 n show ?thesis
    by simp
qed

text \<open>
  C1, as the specification states it, fails: \<^verbatim>\<open>VariableDeclaration\<close>,
  given the declarator at address 1 followed by the terminator, returns with that
  declarator changed (it now has an \<^verbatim>\<open>init\<close> property).
\<close>

theorem declarator_is_mutated:
  "snd (VariableDeclaration [Str ''let'', Ref 1, Str '';''] two_declarators) ! 1
   \<noteq> two_declarators ! 1"
  by (simp add: VariableDeclaration_def new_array_def new_object_def alloc_def array_def
      object_def arg_def fold_declarators.simps [of _ "_ # _"] shift_def set_prop_def push_def
      two_declarators_def)

section \<open>Delimiters in parameter lists\<close>

text \<open>
  C2 fails on the code for \<^verbatim>\<open>ParamList\<close>. Given the children of a
  parameter list with two parameters, \<^verbatim>\<open>'(' a ',' b ')'\<close>, it returns a list
  that still holds the delimiter \<^verbatim>\<open>','\<close>: its filter removes only
  \<^verbatim>\<open>')'\<close>. \<^verbatim>\<open>ArgList\<close>, on the same children, returns the two
  nodes only.
\<close>

theorem ParamList_keeps_comma:
  "ParamList [Str ''('', Ref 1, Str '','', Ref 3, Str '')''] two_declarators =
     (Inr (Ref 4), two_declarators @ [array [Ref 1, Str '','', Ref 3]])
   \<and> ArgList [Str ''('', Ref 1, Str '','', Ref 3, Str '')''] two_declarators =
     (Inr (Ref 4), two_declarators @ [array [Ref 1, Ref 3]])"
  by (simp add: ParamList_def ArgList_def new_array_def two_declarators_def)

section \<open>Sequences that are empty or not terminated\<close>

text \<open>
  C3, as the code has it. \<^verbatim>\<open>VariableDeclaration\<close> fails in these cases,
  each time with the TypeError that the runtime raises when \<^verbatim>\<open>init\<close> is
  written into a missing declarator, and never with \<open>MalformedSequence\<close>: on the
  empty sequence; when the first child is \<^verbatim>\<open>undefined\<close> or
  \<^verbatim>\<open>null\<close>; and when declarators, each with or without an initializer and
  separated by \<^verbatim>\<open>','\<close>, are followed by one more \<^verbatim>\<open>','\<close> after
  which nothing, \<^verbatim>\<open>undefined\<close> or \<^verbatim>\<open>null\<close> comes. A
  sequence without a terminator is not an error: when such declarators are followed by
  nothing, or by any token other than \<^verbatim>\<open>','\<close> and \<^verbatim>\<open>'='\<close>,
  the builder returns the node of kind \<^verbatim>\<open>VariableDeclaration\<close> whose
  \<^verbatim>\<open>declarations\<close> holds exactly these declarators in order.
\<close>

theorem VariableDeclaration_failure:
  "fst (VariableDeclaration [kind] h) = Inl TypeError
   \<and> (d = Undefined \<or> d = Null \<longrightarrow>
        fst (VariableDeclaration (kind # d # rest) h) = Inl TypeError)
   \<and> (items \<noteq> [] \<and> list_all (\<lambda>item. fst item \<noteq> Undefined \<and> fst item \<noteq> Null) items \<longrightarrow>
        (rest = [] \<or> hd rest = Undefined \<or> hd rest = Null \<longrightarrow>
           fst (VariableDeclaration (kind # declarator_sequence items @ Str '','' # rest) h)
           = Inl TypeError)
        \<and> (rest = [] \<or> (hd rest \<noteq> Str '','' \<and> hd rest \<noteq> Str ''='') \<longrightarrow>
           fst (VariableDeclaration (kind # declarator_sequence items @ rest) h)
             = Inr (Ref (Suc (length h)))
           \<and> snd (VariableDeclaration (kind # declarator_sequence items @ rest) h)
               ! Suc (length h)
             = JSObject Ordinary
                 [(''type'', Str ''VariableDeclaration''), (''kind'', kind),
                  (''declarations'', Ref (length h))]
           \<and> shape (snd (VariableDeclaration (kind # declarator_sequence items @ rest) h)
                     ! length h)
             = Elements (map fst items)))
   \<and> (\<forall>e. fst (VariableDeclaration args h) = Inl e \<longrightarrow> e = TypeError)"
proof -
  have a: "fst (VariableDeclaration [kind] h) = Inl TypeError"
    by (rule VariableDeclaration_nullish(1) [of Undefined]) simp
  have b: "d = Undefined \<or> d = Null \<longrightarrow>
        fst (VariableDeclaration (kind # d # rest) h) = Inl TypeError"
    using VariableDeclaration_nullish(2) by blast
  have c: "fst (VariableDeclaration (kind # declarator_sequence items @ Str '','' # rest) h)
           = Inl TypeError"
    if "items \<noteq> []" "list_all (\<lambda>item. fst item \<noteq> Undefined \<and> fst item \<noteq> Null) items"
       "rest = [] \<or> hd rest = Undefined \<or> hd rest = Null"
    using that by (rule VariableDeclaration_sequence_fails)
  have e: "fst (VariableDeclaration (kind # declarator_sequence items @ rest) h)
             = Inr (Ref (Suc (length h)))
           \<and> snd (VariableDeclaration (kind # declarator_sequence items @ rest) h)
               ! Suc (length h)
             = JSObject Ordinary
                 [(''type'', Str ''VariableDeclaration''), (''kind'', kind),
                  (''declarations'', Ref (length h))]
           \<and> shape (snd (VariableDeclaration (kind # declarator_sequence items @ rest) h)
                     ! length h)
             = Elements (map fst items)"
    if i: "items \<noteq> []" "list_all (\<lambda>item. fst item \<noteq> Undefined \<and> fst item \<noteq> Null) items"
       "rest = [] \<or> (hd rest \<noteq> Str '','' \<and> hd rest \<noteq> Str ''='')"
  proof -
    have r: "length (foldl (declarator_round (length h)) (h @ [JSObject (Elements []) []]) items)
               = Suc (length h)
             \<and> shape (foldl (declarator_round (length h)) (h @ [JSObject (Elements []) []]) items
                       ! length h) = Elements ([] @ map fst items)"
      using rounds_elements [of "length h" "h @ [JSObject (Elements []) []]" "[]" items] i(2)
      by simp
    show ?thesis
      using r by (simp add: VariableDeclaration_sequence [OF i] nth_append)
  qed
  have f: "\<forall>e. fst (VariableDeclaration args h) = Inl e \<longrightarrow> e = TypeError"
    using VariableDeclaration_only_TypeError by blast
  from a b c e f show ?thesis
    by blast
qed

theorem VariableDeclaration_failure_witness:
  "fst (VariableDeclaration [Str ''let''] two_declarators) = Inl TypeError
   \<and> fst (VariableDeclaration [Str ''let'', Undefined] two_declarators) = Inl TypeError
   \<and> fst (VariableDeclaration
        [Str ''let'', Ref 1, Str ''='', Num ''1'', Str '','', Ref 3, Str '',''] two_declarators)
       = Inl TypeError
   \<and> fst (VariableDeclaration
        [Str ''let'', Ref 1, Str ''='', Num ''1'', Str '','', Ref 3] two_declarators)
       = Inr (Ref 5)
   \<and> shape (snd (VariableDeclaration
        [Str ''let'', Ref 1, Str ''='', Num ''1'', Str '','', Ref 3] two_declarators) ! 4)
       = Elements [Ref 1, Ref 3]
   \<and> fst (VariableDeclaration
        [Str ''let'', Ref 1, Str ''='', Num ''1'', Str '','', Ref 3, Str '';''] two_declarators)
       = Inr (Ref 5)
   \<and> fst (VariableDeclaration [Str ''let'', Ref 1, Str ''='', Str '',''] two_declarators)
       = Inr (Ref 5)
   \<and> fst (VariableDeclaration [Str ''let'', Ref 1, Str '';'', Str '',''] two_declarators)
       = Inr (Ref 5)"
proof -
  have n: "length two_declarators = 4"
    by (simp add: two_declarators_def)
  note a = VariableDeclaration_failure
      [of "Str ''let''" two_declarators Undefined "[]"
          "[(Ref 1, Some (Num ''1'')), (Ref 3, None)]" "[]"]
  note b = VariableDeclaration_failure
      [of "Str ''let''" two_declarators Undefined "[Str '';'']"
          "[(Ref 1, Some (Num ''1'')), (Ref 3, None)]" "[]"]
  note c = VariableDeclaration_failure
      [of "Str ''let''" two_declarators Undefined "[]" "[(Ref 1, Some (Str '',''))]" "[]"]
  note d = VariableDeclaration_failure
      [of "Str ''let''" two_declarators Undefined "[Str '';'', Str '','']" "[(Ref 1, None)]" "[]"]
  from a have a': "fst (VariableDeclaration [Str ''let''] two_declarators) = Inl TypeError
   \<and> fst (VariableDeclaration [Str ''let'', Undefined] two_declarators) = Inl TypeError
   \<and> fst (VariableDeclaration
        [Str ''let'', Ref 1, Str ''='', Num ''1'', Str '','', Ref 3, Str '',''] two_declarators)
       = Inl TypeError
   \<and> fst (VariableDeclaration
        [Str ''let'', Ref 1, Str ''='', Num ''1'', Str '','', Ref 3] two_declarators)
       = Inr (Ref 5)
   \<and> shape (snd (VariableDeclaration
        [Str ''let'', Ref 1, Str ''='', Num ''1'', Str '','', Ref 3] two_declarators) ! 4)
       = Elements [Ref 1, Ref 3]"
    by (simp add: n)
  from b have b': "fst (VariableDeclaration
        [Str ''let'', Ref 1, Str ''='', Num ''1'', Str '','', Ref 3, Str '';''] two_declarators)
       = Inr (Ref 5)"
    by (simp add: n)
  from c have c': "fst (VariableDeclaration
        [Str ''let'', Ref 1, Str ''='', Str '',''] two_declarators) = Inr (Ref 5)"
    by (simp add: n)
  from d have d': "fst (VariableDeclaration
        [Str ''let'', Ref 1, Str '';'', Str '',''] two_declarators) = Inr (Ref 5)"
    by (simp add: n)
  from a' b' c' d' show ?thesis
    by simp
qed

text \<open>
  C3, as the specification states it, fails: a sequence of one declarator and no
  terminator is not rejected; the builder returns a node.
\<close>

theorem unterminated_declaration_returns:
  "fst (VariableDeclaration [Str ''let'', Ref 1] two_declarators) = Inr (Ref 5)"
  by (simp add: VariableDeclaration_def new_array_def new_object_def alloc_def array_def
      object_def arg_def fold_declarators.simps [of _ "_ # _"] shift_def set_prop_def push_def
      two_declarators_def)

section \<open>Literals the host rejects\<close>

text \<open>
  C5, as the code has it. \<^verbatim>\<open>String\<close> and \<^verbatim>\<open>RegExp\<close> hand the
  raw token to the host's \<^verbatim>\<open>eval\<close>. When the host rejects the token, both
  fail with the very error the host raised (a SyntaxError for a malformed literal),
  and the store is as it was; they wrap nothing and add no text to the error. When
  the host returns a value, \<^verbatim>\<open>String\<close> returns a new
  \<^verbatim>\<open>Literal\<close> holding that value and the raw token. When the host returns
  a regular expression, it is a new object of the store; \<^verbatim>\<open>String\<close>
  returns a \<^verbatim>\<open>Literal\<close> holding it, and \<^verbatim>\<open>RegExp\<close> returns
  a \<^verbatim>\<open>Literal\<close> holding the raw token, the regular expression and a new
  record of its pattern and flags. \<^verbatim>\<open>RegExp\<close> fails with a TypeError when
  the host returns \<^verbatim>\<open>undefined\<close> or \<^verbatim>\<open>null\<close>.
\<close>

theorem literal_errors_come_from_eval:
  "(eval H raw = Inl e \<longrightarrow>
      String H [Str raw] h = (Inl e, h) \<and> RegExp H [Str raw] h = (Inl e, h))
   \<and> (eval H raw = Inr (Value v) \<longrightarrow>
      String H [Str raw] h =
        (Inr (Ref (length h)),
         h @ [JSObject Ordinary
                [(''type'', Str ''Literal''), (''value'', v), (''raw'', Str raw)]]))
   \<and> (eval H raw = Inr (NewRegExp p f) \<longrightarrow>
      String H [Str raw] h =
        (Inr (Ref (Suc (length h))),
         h @ [JSObject (Pattern p f) [],
              JSObject Ordinary
                [(''type'', Str ''Literal''), (''value'', Ref (length h)),
                 (''raw'', Str raw)]])
      \<and> RegExp H [Str raw] h =
        (Inr (Ref (Suc (Suc (length h)))),
         h @ [JSObject (Pattern p f) [],
              JSObject Ordinary [(''pattern'', Str p), (''flags'', Str f)],
              JSObject Ordinary
                [(''type'', Str ''Literal''), (''raw'', Str raw),
                 (''value'', Ref (length h)), (''regex'', Ref (Suc (length h)))]]))
   \<and> (eval H raw = Inr (Value Undefined) \<or> eval H raw = Inr (Value Null) \<longrightarrow>
      RegExp H [Str raw] h = (Inl TypeError, h))"
  by (auto simp: String_def RegExp_def js_eval_def arg_def Let_def materialize_def
      new_object_def alloc_def object_def get_prop_def inherited_def nth_append)

theorem literal_errors_come_from_eval_witness:
  "eval sample_host bad_escape = Inl SyntaxError
   \<and> String sample_host [Str bad_escape] two_declarators = (Inl SyntaxError, two_declarators)
   \<and> RegExp sample_host [Str bad_escape] two_declarators = (Inl SyntaxError, two_declarators)
   \<and> eval sample_host quoted_ab = Inr (Value (Str ''ab''))
   \<and> String sample_host [Str quoted_ab] [] =
       (Inr (Ref 0),
        [JSObject Ordinary
           [(''type'', Str ''Literal''), (''value'', Str ''ab''), (''raw'', Str quoted_ab)]])
   \<and> eval sample_host ''/a+/g'' = Inr (NewRegExp ''a+'' ''g'')
   \<and> RegExp sample_host [Str ''/a+/g''] [] =
       (Inr (Ref 2),
        [JSObject (Pattern ''a+'' ''g'') [],
         JSObject Ordinary [(''pattern'', Str ''a+''), (''flags'', Str ''g'')],
         JSObject Ordinary
           [(''type'', Str ''Literal''), (''raw'', Str ''/a+/g''), (''value'', Ref 0),
            (''regex'', Ref 1)]])
   \<and> eval (sample_host \<lparr> eval := \<lambda>raw. Inr (Value Undefined) \<rparr>) ''x''
       = Inr (Value Undefined)
   \<and> RegExp (sample_host \<lparr> eval := \<lambda>raw. Inr (Value Undefined) \<rparr>) [Str ''x''] []
       = (Inl TypeError, [])"
proof -
  have a: "eval sample_host bad_escape = Inl SyntaxError"
    by (simp add: sample_host_def quoted_ab_def bad_escape_def)
  have b: "eval sample_host quoted_ab = Inr (Value (Str ''ab''))"
    by (simp add: sample_host_def)
  have c: "eval sample_host ''/a+/g'' = Inr (NewRegExp ''a+'' ''g'')"
    by (simp add: sample_host_def quoted_ab_def)
  have d: "eval (sample_host \<lparr> eval := \<lambda>raw. Inr (Value Undefined) \<rparr>) ''x''
       = Inr (Value Undefined)"
    by simp
  from literal_errors_come_from_eval
         [of sample_host bad_escape SyntaxError two_declarators Undefined "''a+''" "''g''"] a
  have a': "String sample_host [Str bad_escape] two_declarators = (Inl SyntaxError, two_declarators)
   \<and> RegExp sample_host [Str bad_escape] two_declarators = (Inl SyntaxError, two_declarators)"
    by simp
  from literal_errors_come_from_eval
         [of sample_host quoted_ab SyntaxError "[]" "Str ''ab''" "''a+''" "''g''"] b
  have b': "String sample_host [Str quoted_ab] [] =
       (Inr (Ref 0),
        [JSObject Ordinary
           [(''type'', Str ''Literal''), (''value'', Str ''ab''), (''raw'', Str quoted_ab)]])"
    by simp
  from literal_errors_come_from_eval
         [of sample_host "''/a+/g''" SyntaxError "[]" Undefined "''a+''" "''g''"] c
  have c': "RegExp sample_host [Str ''/a+/g''] [] =
       (Inr (Ref 2),
        [JSObject (Pattern ''a+'' ''g'') [],
         JSObject Ordinary [(''pattern'', Str ''a+''), (''flags'', Str ''g'')],
         JSObject Ordinary
           [(''type'', Str ''Literal''), (''raw'', Str ''/a+/g''), (''value'', Ref 0),
            (''regex'', Ref 1)]])"
    by simp
  from literal_errors_come_from_eval
         [of "sample_host \<lparr> eval := \<lambda>raw. Inr (Value Undefined) \<rparr>" "''x''" SyntaxError "[]"
             Undefined "''a+''" "''g''"] d
  have d': "RegExp (sample_host \<lparr> eval := \<lambda>raw. Inr (Value Undefined) \<rparr>) [Str ''x''] []
       = (Inl TypeError, [])"
    by simp
  from a b c d a' b' c' d' show ?thesis
    by simp
qed

text \<open>
  C5, as the specification states it, fails: on the string token with the incomplete
  escape, and on the regular expression token \<^verbatim>\<open>/(/\<close>, the error that
  reaches the caller is the host's SyntaxError, not \<open>InvalidLiteral\<close> with the
  raw text.
\<close>

theorem malformed_escape_is_SyntaxError:
  "String sample_host [Str bad_escape] [] = (Inl SyntaxError, [])
   \<and> fst (String sample_host [Str bad_escape] []) \<noteq> Inl (InvalidLiteral bad_escape)
   \<and> RegExp sample_host [Str ''/(/''] [] = (Inl SyntaxError, [])
   \<and> fst (RegExp sample_host [Str ''/(/''] []) \<noteq> Inl (InvalidLiteral ''/(/'')"
  by (simp add: String_def RegExp_def js_eval_def arg_def sample_host_def quoted_ab_def
      bad_escape_def)

end
